theory Spec2Isabelle
  imports Complex_Main "HOL-Library.Word" "HOL-Library.Sublist"
    "HOL-Library.AList"
begin

section \<open>The Hermes interpreter (src/main.cpp)\<close>

text \<open>
  A shallow embedding of the interpreter of src/main.cpp. The platform is the usual
  LP64 one: \<open>int\<close> is a 32-bit two's complement integer (arithmetic wraps),
  \<open>size_t\<close> is an unsigned 64-bit integer, \<open>char\<close> is a byte.

  A C++ exception that nothing catches, an integer division that traps and a read
  outside a container end the run: such an outcome is the value \<open>Raise e\<close>. Where the
  language leaves a result open and the x86-64 build has one (overflowing \<open>int\<close>
  arithmetic wraps, a \<open>double\<close> outside the range of \<open>int\<close> converts to the least
  \<open>int\<close>), the model has that result. A computation that does not return is bounded by
  fuel: \<open>OutOfFuel\<close>.
\<close>

subsection \<open>Results\<close>

datatype error =
    InvalidArgument      \<comment> \<open>std::invalid_argument (stoi, stod)\<close>
  | OutOfRange           \<comment> \<open>std::out_of_range (stoi, stod, string::substr)\<close>
  | UndefinedBehaviour   \<comment> \<open>integer division trap, out-of-bounds read\<close>

datatype 'a result = Ok 'a | Raise error | OutOfFuel

text \<open>Sequencing: the second computation runs only when the first one returned.\<close>

fun andThen :: "'a result \<Rightarrow> ('a \<Rightarrow> 'b result) \<Rightarrow> 'b result" where
  "andThen (Ok x) f = f x"
| "andThen (Raise e) f = Raise e"
| "andThen OutOfFuel f = OutOfFuel"

subsection \<open>std::string\<close>

type_synonym size_t = nat

definition npos :: size_t where
  "npos = 2 ^ 64 - 1"

text \<open>Unsigned 64-bit arithmetic: the value of an integer expression as a \<open>size_t\<close>.\<close>

definition sz :: "int \<Rightarrow> size_t" where
  "sz i = nat (i mod 2 ^ 64)"

text \<open>\<open>s.find(pat)\<close>: the lowest position where \<open>pat\<close> occurs, or \<open>npos\<close>.\<close>

primrec find_aux :: "string \<Rightarrow> string \<Rightarrow> nat \<Rightarrow> size_t" where
  "find_aux pat [] i = (if pat = [] then i else npos)"
| "find_aux pat (c # cs) i = (if prefix pat (c # cs) then i else find_aux pat cs (Suc i))"

definition string_find :: "string \<Rightarrow> string \<Rightarrow> size_t" where
  "string_find s pat = find_aux pat s 0"

text \<open>\<open>s.find(pat, pos)\<close>.\<close>

definition find_from :: "string \<Rightarrow> string \<Rightarrow> size_t \<Rightarrow> size_t" where
  "find_from s pat pos = (if length s < pos then npos else find_aux pat (drop pos s) pos)"

text \<open>\<open>s.rfind(pat)\<close>: the highest position where \<open>pat\<close> occurs, or \<open>npos\<close>.\<close>

primrec rfind_aux :: "string \<Rightarrow> string \<Rightarrow> nat \<Rightarrow> size_t" where
  "rfind_aux pat [] i = (if pat = [] then i else npos)"
| "rfind_aux pat (c # cs) i =
     (let r = rfind_aux pat cs (Suc i)
      in if r = npos then (if prefix pat (c # cs) then i else npos) else r)"

definition string_rfind :: "string \<Rightarrow> string \<Rightarrow> size_t" where
  "string_rfind s pat = rfind_aux pat s 0"

text \<open>\<open>s.substr(pos, count)\<close> throws when \<open>pos\<close> is beyond the end.\<close>

definition substr :: "string \<Rightarrow> size_t \<Rightarrow> size_t \<Rightarrow> string result" where
  "substr s pos count = (if length s < pos then Raise OutOfRange else Ok (take count (drop pos s)))"

text \<open>\<open>s.substr(pos)\<close>.\<close>

definition substr_from :: "string \<Rightarrow> size_t \<Rightarrow> string result" where
  "substr_from s pos = substr s pos npos"

primrec find_first_not_of_aux :: "string \<Rightarrow> string \<Rightarrow> nat \<Rightarrow> size_t" where
  "find_first_not_of_aux cs [] i = npos"
| "find_first_not_of_aux cs (c # s) i =
     (if c \<in> set cs then find_first_not_of_aux cs s (Suc i) else i)"

definition find_first_not_of :: "string \<Rightarrow> string \<Rightarrow> size_t" where
  "find_first_not_of s cs = find_first_not_of_aux cs s 0"

primrec find_last_not_of_aux :: "string \<Rightarrow> string \<Rightarrow> nat \<Rightarrow> size_t" where
  "find_last_not_of_aux cs [] i = npos"
| "find_last_not_of_aux cs (c # s) i =
     (let r = find_last_not_of_aux cs s (Suc i)
      in if r = npos then (if c \<in> set cs then npos else i) else r)"

definition find_last_not_of :: "string \<Rightarrow> string \<Rightarrow> size_t" where
  "find_last_not_of s cs = find_last_not_of_aux cs s 0"

definition whitespace :: string where
  "whitespace = [CHR '' '', CHR 0x09, CHR 0x0D, CHR 0x0A]"

definition trim :: "string \<Rightarrow> string" where
  "trim str =
     (let first = find_first_not_of str whitespace
      in if first = npos then []
         else let last = find_last_not_of str whitespace
              in take (last - first + 1) (drop first str))"

definition removeComments :: "string \<Rightarrow> string" where
  "removeComments line =
     (let pos = string_find line ''//'' in if pos = npos then line else take pos line)"

subsection \<open>Characters and numerals of the C library\<close>

definition isdigit :: "char \<Rightarrow> bool" where
  "isdigit c = (c \<in> set ''0123456789'')"

text \<open>\<open>isspace\<close> in the C locale: space, \<open>\t \n \v \f \r\<close>.\<close>

definition isspace :: "char \<Rightarrow> bool" where
  "isspace c = (c \<in> set [CHR '' '', CHR 0x09, CHR 0x0A, CHR 0x0B, CHR 0x0C, CHR 0x0D])"

text \<open>The class \<open>\w\<close> of std::regex: letters, digits and the underscore.\<close>

definition isword :: "char \<Rightarrow> bool" where
  "isword c = (c \<in> set ''abcdefghijklmnopqrstuvwxyzABCDEFGHIJKLMNOPQRSTUVWXYZ0123456789_'')"

definition isupper :: "char \<Rightarrow> bool" where
  "isupper c = (c \<in> set ''ABCDEFGHIJKLMNOPQRSTUVWXYZ'')"

definition tolower :: "char \<Rightarrow> char" where
  "tolower c =
     (case map_of (zip ''ABCDEFGHIJKLMNOPQRSTUVWXYZ'' ''abcdefghijklmnopqrstuvwxyz'') c of
        Some l \<Rightarrow> l
      | None \<Rightarrow> c)"

definition digit_val :: "char \<Rightarrow> nat" where
  "digit_val c = of_char c - 48"

definition digit_char :: "nat \<Rightarrow> char" where
  "digit_char d = ''0123456789'' ! d"

text \<open>The value of a digit string, most significant digit first.\<close>

definition nat_of_digits :: "string \<Rightarrow> nat" where
  "nat_of_digits ds = foldl (\<lambda>acc c. 10 * acc + digit_val c) 0 ds"

fun digits_of_nat :: "nat \<Rightarrow> string" where
  "digits_of_nat n =
     (if n < 10 then [digit_char n] else digits_of_nat (n div 10) @ [digit_char (n mod 10)])"

declare digits_of_nat.simps [simp del]

subsection \<open>int\<close>

type_synonym int32 = "32 word"

text \<open>\<open>std::to_string(int)\<close>.\<close>

definition to_string_int :: "int32 \<Rightarrow> string" where
  "to_string_int i =
     (if sint i < 0 then CHR ''-'' # digits_of_nat (nat (- sint i)) else digits_of_nat (nat (sint i)))"

text \<open>
  \<open>std::stoi(s)\<close>, which is \<open>strtol\<close> in base 10 on the longest numeric prefix:
  leading white space, an optional sign, digits. Without a digit it throws
  \<open>invalid_argument\<close>, outside the range of \<open>int\<close> it throws \<open>out_of_range\<close>.
\<close>

definition after_sign :: "string \<Rightarrow> string" where
  "after_sign s = (if s \<noteq> [] \<and> (hd s = CHR ''-'' \<or> hd s = CHR ''+'') then tl s else s)"

definition stoi :: "string \<Rightarrow> int32 result" where
  "stoi s =
     (let s1 = dropWhile isspace s;
          neg = (s1 \<noteq> [] \<and> hd s1 = CHR ''-'');
          ds = takeWhile isdigit (after_sign s1);
          v = (if neg then - int (nat_of_digits ds) else int (nat_of_digits ds))
      in if ds = [] then Raise InvalidArgument
         else if v < - (2 ^ 31) then Raise OutOfRange
         else if 2 ^ 31 - 1 < v then Raise OutOfRange
         else Ok (word_of_int v))"

text \<open>Integer division truncates towards zero; dividing by zero, and the one overflowing
  quotient, trap.\<close>

definition int_div :: "int32 \<Rightarrow> int32 \<Rightarrow> int32 result" where
  "int_div a b =
     (if b = 0 then Raise UndefinedBehaviour
      else if a = word_of_int (- (2 ^ 31)) \<and> b = word_of_int (- 1) then Raise UndefinedBehaviour
      else Ok (word_of_int (sgn (sint a) * sgn (sint b) * (\<bar>sint a\<bar> div \<bar>sint b\<bar>))))"

subsection \<open>double\<close>

text \<open>
  A \<open>double\<close> is a binary64 value: a finite one is its sign (true for a negative
  number, also for the negative zero) with the rational number that is its magnitude; an
  infinity and a NaN carry their sign. Every operation rounds its exact result to the
  nearest binary64 value, ties to even, and behaves as the SSE2 instructions of the
  x86-64 build do: an invalid operation gives the negative quiet NaN, and a NaN operand
  is passed on, the left one first.
\<close>

datatype double = Finite bool rat | Infinity bool | NaN bool

definition pow2 :: "int \<Rightarrow> rat" where
  "pow2 e = (if 0 \<le> e then 2 ^ nat e else 1 / 2 ^ nat (- e))"

definition pow10 :: "int \<Rightarrow> rat" where
  "pow10 e = (if 0 \<le> e then 10 ^ nat e else 1 / 10 ^ nat (- e))"

text \<open>The number of binary digits of a natural number.\<close>

fun bit_length :: "nat \<Rightarrow> nat" where
  "bit_length n = (if n = 0 then 0 else Suc (bit_length (n div 2)))"

declare bit_length.simps [simp del]

text \<open>\<open>ilog2 q\<close> is the integer \<open>e\<close> with \<open>2^e \<le> q < 2^(e+1)\<close>, for \<open>q > 0\<close>.\<close>

definition ilog2 :: "rat \<Rightarrow> int" where
  "ilog2 q =
     (let (a, b) = quotient_of q;
          e = int (bit_length (nat a)) - int (bit_length (nat b))
      in if pow2 e \<le> q then e else e - 1)"

definition round_half_even :: "rat \<Rightarrow> int" where
  "round_half_even x =
     (let f = \<lfloor>x\<rfloor>; r = x - of_int f
      in if r < 1 / 2 then f else if 1 / 2 < r then f + 1 else if even f then f else f + 1)"

text \<open>A positive rational rounded to 53 significant bits, the exponent not bounded.\<close>

definition round_53_bits :: "rat \<Rightarrow> rat" where
  "round_53_bits q = of_int (round_half_even (q / pow2 (ilog2 q - 52))) * pow2 (ilog2 q - 52)"

text \<open>The binary64 value with the given sign that is nearest to a magnitude: 53
  significant bits, exponents from -1022 (below which the spacing stays that of the
  subnormal numbers) to 1023, an infinity beyond.\<close>

definition round_binary64 :: "bool \<Rightarrow> rat \<Rightarrow> double" where
  "round_binary64 s q =
     (if q = 0 then Finite s 0
      else let e = max (ilog2 q) (- 1022);
               ulp = pow2 (e - 52);
               r = of_int (round_half_even (q / ulp)) * ulp
           in if pow2 1024 \<le> r then Infinity s else Finite s r)"

definition with_sign :: "bool \<Rightarrow> rat \<Rightarrow> rat" where
  "with_sign s m = (if s then - m else m)"

definition dneg :: "double \<Rightarrow> double" where
  "dneg x =
     (case x of
        Finite s m \<Rightarrow> Finite (\<not> s) m
      | Infinity s \<Rightarrow> Infinity (\<not> s)
      | NaN s \<Rightarrow> NaN (\<not> s))"

text \<open>A sum that is exactly zero is the positive zero, unless both terms are negative
  zeros; infinities of opposite signs have no sum.\<close>

definition dadd :: "double \<Rightarrow> double \<Rightarrow> double" where
  "dadd x y =
     (case x of
        NaN a \<Rightarrow> x
      | Infinity a \<Rightarrow>
          (case y of
             NaN b \<Rightarrow> y
           | Infinity b \<Rightarrow> (if a = b then x else NaN True)
           | Finite t q \<Rightarrow> x)
      | Finite s p \<Rightarrow>
          (case y of
             NaN b \<Rightarrow> y
           | Infinity b \<Rightarrow> y
           | Finite t q \<Rightarrow>
               (if with_sign s p + with_sign t q = 0 then Finite (s \<and> t) 0
                else round_binary64 (with_sign s p + with_sign t q < 0)
                       \<bar>with_sign s p + with_sign t q\<bar>)))"

definition dsub :: "double \<Rightarrow> double \<Rightarrow> double" where
  "dsub x y =
     (case y of
        NaN b \<Rightarrow> (case x of NaN a \<Rightarrow> x | Infinity a \<Rightarrow> y | Finite s p \<Rightarrow> y)
      | Infinity b \<Rightarrow> dadd x (dneg y)
      | Finite t q \<Rightarrow> dadd x (dneg y))"

text \<open>The sign of a product and of a quotient is negative when the signs differ; zero
  times infinity has no value.\<close>

definition dmul :: "double \<Rightarrow> double \<Rightarrow> double" where
  "dmul x y =
     (case x of
        NaN a \<Rightarrow> x
      | Infinity a \<Rightarrow>
          (case y of
             NaN b \<Rightarrow> y
           | Infinity b \<Rightarrow> Infinity (a \<noteq> b)
           | Finite t q \<Rightarrow> (if q = 0 then NaN True else Infinity (a \<noteq> t)))
      | Finite s p \<Rightarrow>
          (case y of
             NaN b \<Rightarrow> y
           | Infinity b \<Rightarrow> (if p = 0 then NaN True else Infinity (s \<noteq> b))
           | Finite t q \<Rightarrow> round_binary64 (s \<noteq> t) (p * q)))"

text \<open>Division by a zero gives an infinity; \<open>0 / 0\<close> and a quotient of infinities have no
  value.\<close>

definition ddiv :: "double \<Rightarrow> double \<Rightarrow> double" where
  "ddiv x y =
     (case x of
        NaN a \<Rightarrow> x
      | Infinity a \<Rightarrow>
          (case y of
             NaN b \<Rightarrow> y
           | Infinity b \<Rightarrow> NaN True
           | Finite t q \<Rightarrow> Infinity (a \<noteq> t))
      | Finite s p \<Rightarrow>
          (case y of
             NaN b \<Rightarrow> y
           | Infinity b \<Rightarrow> Finite (s \<noteq> b) 0
           | Finite t q \<Rightarrow>
               (if q = 0 then (if p = 0 then NaN True else Infinity (s \<noteq> t))
                else round_binary64 (s \<noteq> t) (p / q))))"

text \<open>The integer square root, one bit at a time.\<close>

primrec isqrt_bits :: "nat \<Rightarrow> nat \<Rightarrow> nat \<Rightarrow> nat" where
  "isqrt_bits 0 n r = r"
| "isqrt_bits (Suc b) n r =
     (if (r + 2 ^ b) * (r + 2 ^ b) \<le> n then isqrt_bits b n (r + 2 ^ b) else isqrt_bits b n r)"

definition isqrt :: "nat \<Rightarrow> nat" where
  "isqrt n = isqrt_bits (bit_length n) n 0"

text \<open>\<open>sqrt\<close>, which rounds correctly: the root is located between two neighbours of a
  grid 2^12 times finer than binary64, and a point strictly between them is rounded,
  which rounds as the root does. The root of a zero is that zero; a negative number has
  none.\<close>

definition dsqrt :: "double \<Rightarrow> double" where
  "dsqrt x =
     (case x of
        NaN a \<Rightarrow> x
      | Infinity a \<Rightarrow> (if a then NaN True else x)
      | Finite s q \<Rightarrow>
          (if q = 0 then x else if s then NaN True
           else let e = ilog2 q div 2;
                    g = pow2 (e - 64);
                    k = isqrt (nat \<lfloor>q / (g * g)\<rfloor>)
                in if of_nat (k * k) * (g * g) = q then round_binary64 False (of_nat k * g)
                   else round_binary64 False ((of_nat k + 1 / 2) * g)))"

definition double_of_int :: "int32 \<Rightarrow> double" where
  "double_of_int i = Finite (sint i < 0) (of_int \<bar>sint i\<bar>)"

text \<open>\<open>(int) d\<close> truncates. For a value outside the range of \<open>int\<close>, an infinity or a
  NaN, the conversion instruction of the build gives the least \<open>int\<close>.\<close>

definition int_of_double :: "double \<Rightarrow> int32" where
  "int_of_double x =
     (case x of
        Finite s m \<Rightarrow>
          (if with_sign s (of_int \<lfloor>m\<rfloor>) < - (2 ^ 31) then word_of_int (- (2 ^ 31))
           else if 2 ^ 31 - 1 < with_sign s (of_int \<lfloor>m\<rfloor>) then word_of_int (- (2 ^ 31))
           else word_of_int (if s then - \<lfloor>m\<rfloor> else \<lfloor>m\<rfloor>))
      | Infinity s \<Rightarrow> word_of_int (- (2 ^ 31))
      | NaN s \<Rightarrow> word_of_int (- (2 ^ 31)))"

text \<open>\<open>::round\<close> rounds halfway cases away from zero; \<open>ceil\<close>. Both keep the sign,
  also of a zero result.\<close>

definition dround :: "double \<Rightarrow> double" where
  "dround x =
     (case x of
        Finite s m \<Rightarrow> Finite s (of_int \<lfloor>m + 1 / 2\<rfloor>)
      | Infinity s \<Rightarrow> x
      | NaN s \<Rightarrow> x)"

definition dceil :: "double \<Rightarrow> double" where
  "dceil x =
     (case x of
        Finite s m \<Rightarrow> (if s then Finite True (of_int \<lfloor>m\<rfloor>) else Finite False (of_int \<lceil>m\<rceil>))
      | Infinity s \<Rightarrow> x
      | NaN s \<Rightarrow> x)"

text \<open>\<open>floatVal != 0.0\<close>: both zeros are equal to zero, a NaN is not.\<close>

definition is_nonzero :: "double \<Rightarrow> bool" where
  "is_nonzero x = (case x of Finite s m \<Rightarrow> m \<noteq> 0 | Infinity s \<Rightarrow> True | NaN s \<Rightarrow> True)"

text \<open>\<open>std::to_string(double)\<close> prints as \<open>printf("%f")\<close> does: the sign, and the exact
  magnitude rounded to six decimals.\<close>

definition pad6 :: "string \<Rightarrow> string" where
  "pad6 ds = take (6 - length ds) ''000000'' @ ds"

definition to_string_double :: "double \<Rightarrow> string" where
  "to_string_double x =
     (case x of
        Finite s m \<Rightarrow>
          (if s then ''-'' else [])
          @ digits_of_nat (nat (round_half_even (m * 1000000)) div 1000000) @ ''.''
          @ pad6 (digits_of_nat (nat (round_half_even (m * 1000000)) mod 1000000))
      | Infinity s \<Rightarrow> (if s then ''-inf'' else ''inf'')
      | NaN s \<Rightarrow> (if s then ''-nan'' else ''nan''))"

text \<open>
  \<open>std::stod(s)\<close>, which is \<open>strtod\<close> on the longest numeric prefix: leading white
  space, an optional sign, then \<open>inf\<close> or \<open>nan\<close> (in any case), a hexadecimal number
  with an optional binary exponent, or a decimal number with an optional decimal
  exponent. Without a number it throws \<open>invalid_argument\<close>. It throws \<open>out_of_range\<close> on
  overflow, and on an inexact result that is below the normal range even when rounded
  with an unbounded exponent.
\<close>

definition ishex :: "char \<Rightarrow> bool" where
  "ishex c = (c \<in> set ''0123456789abcdefABCDEF'')"

definition hex_val :: "char \<Rightarrow> nat" where
  "hex_val c =
     (if isdigit c then of_char c - 48
      else if c \<in> set ''abcdef'' then of_char c - 87 else of_char c - 55)"

text \<open>The exponent part after the mantissa: the marker, an optional sign, digits.\<close>

definition exponent_part :: "string \<Rightarrow> string \<Rightarrow> int" where
  "exponent_part markers r =
     (if r = [] then 0
      else if hd r \<in> set markers then
        (let neg = (tl r \<noteq> [] \<and> hd (tl r) = CHR ''-'');
             ds = takeWhile isdigit (after_sign (tl r))
         in if neg then - int (nat_of_digits ds) else int (nat_of_digits ds))
      else 0)"

text \<open>The digits before and after the point, and what follows them.\<close>

definition mantissa_part :: "(char \<Rightarrow> bool) \<Rightarrow> string \<Rightarrow> string \<times> string \<times> string" where
  "mantissa_part isd s =
     (let ip = takeWhile isd s;
          r = dropWhile isd s
      in if r \<noteq> [] \<and> hd r = CHR ''.''
         then (ip, takeWhile isd (tl r), dropWhile isd (tl r))
         else (ip, [], r))"

definition strtod_finish :: "bool \<Rightarrow> rat \<Rightarrow> double result" where
  "strtod_finish neg q =
     (if q = 0 then Ok (Finite neg 0)
      else case round_binary64 neg q of
             Finite s r \<Rightarrow>
               (if round_53_bits q < pow2 (- 1022) \<and> r \<noteq> q then Raise OutOfRange
                else Ok (Finite s r))
           | Infinity s \<Rightarrow> Raise OutOfRange
           | NaN s \<Rightarrow> Raise OutOfRange)"

definition stod :: "string \<Rightarrow> double result" where
  "stod s =
     (let s1 = dropWhile isspace s;
          neg = (s1 \<noteq> [] \<and> hd s1 = CHR ''-'');
          s2 = after_sign s1;
          word3 = map tolower (take 3 s2);
          hx = mantissa_part ishex (drop 2 s2);
          dc = mantissa_part isdigit s2
      in if word3 = ''inf'' then Ok (Infinity neg)
         else if word3 = ''nan'' then Ok (NaN neg)
         else if map tolower (take 2 s2) = ''0x'' \<and> fst hx @ fst (snd hx) \<noteq> []
         then strtod_finish neg
                (of_nat (foldl (\<lambda>acc c. 16 * acc + hex_val c) 0 (fst hx @ fst (snd hx)))
                 / 16 ^ length (fst (snd hx))
                 * pow2 (exponent_part ''pP'' (snd (snd hx))))
         else if fst dc @ fst (snd dc) = [] then Raise InvalidArgument
         else strtod_finish neg
                (of_nat (nat_of_digits (fst dc @ fst (snd dc))) / 10 ^ length (fst (snd dc))
                 * pow10 (exponent_part ''eE'' (snd (snd dc)))))"

subsection \<open>Values\<close>

text \<open>\<open>enum class ValueType\<close>; its tag \<open>INT\<close> is written \<open>T_INT\<close> here.\<close>

datatype ValueType = T_INT | FLOAT | STRING | BOOL | MAP | LIST | FUNCTION | CLASS_INSTANCE | NONE

text \<open>
  \<open>class Value\<close> carries the tag and every payload field at once; \<open>class
  ClassDefinition\<close> holds the maps of a class. A \<open>std::map\<close> inside a value is an
  association list, read with \<open>map_of\<close> and written with \<open>AList.update\<close>; the
  \<open>shared_ptr\<close> of an instance is the class definition it points to, or nothing.
\<close>

datatype Value =
  Value (type: ValueType) (intVal: int32) (floatVal: double) (stringVal: string)
        (boolVal: bool) (mapVal: "(string \<times> Value) list") (listVal: "Value list")
        (classInstance: "ClassDefinition option") (instanceVars: "(string \<times> Value) list")
and ClassDefinition =
  ClassDefinition (name: string) (class_variables: "(string \<times> Value) list")
        (class_functions: "(string \<times> string list) list")
        (functionParams: "(string \<times> string list) list")

text \<open>The five constructors of \<open>Value\<close>.\<close>

definition Value_none :: Value where
  "Value_none = Value NONE 0 (Finite False 0) [] False [] [] None []"

definition Value_int :: "int32 \<Rightarrow> Value" where
  "Value_int v = Value T_INT v (Finite False 0) [] False [] [] None []"

definition Value_double :: "double \<Rightarrow> Value" where
  "Value_double v = Value FLOAT 0 v [] False [] [] None []"

definition Value_string :: "string \<Rightarrow> Value" where
  "Value_string v = Value STRING 0 (Finite False 0) v False [] [] None []"

definition Value_bool :: "bool \<Rightarrow> Value" where
  "Value_bool v = Value BOOL 0 (Finite False 0) [] v [] [] None []"

text \<open>Assignments to single fields.\<close>

definition set_type :: "ValueType \<Rightarrow> Value \<Rightarrow> Value" where
  "set_type t v = Value t (intVal v) (floatVal v) (stringVal v) (boolVal v) (mapVal v)
                    (listVal v) (classInstance v) (instanceVars v)"

definition set_intVal :: "int32 \<Rightarrow> Value \<Rightarrow> Value" where
  "set_intVal i v = Value (type v) i (floatVal v) (stringVal v) (boolVal v) (mapVal v)
                      (listVal v) (classInstance v) (instanceVars v)"

definition set_listVal :: "Value list \<Rightarrow> Value \<Rightarrow> Value" where
  "set_listVal l v = Value (type v) (intVal v) (floatVal v) (stringVal v) (boolVal v) (mapVal v)
                       l (classInstance v) (instanceVars v)"

definition set_classInstance :: "ClassDefinition option \<Rightarrow> Value \<Rightarrow> Value" where
  "set_classInstance c v = Value (type v) (intVal v) (floatVal v) (stringVal v) (boolVal v)
                             (mapVal v) (listVal v) c (instanceVars v)"

definition set_instanceVars :: "(string \<times> Value) list \<Rightarrow> Value \<Rightarrow> Value" where
  "set_instanceVars m v = Value (type v) (intVal v) (floatVal v) (stringVal v) (boolVal v)
                            (mapVal v) (listVal v) (classInstance v) m"

text \<open>\<open>Value::toString\<close>: the elements of a list are joined with a comma and a space.\<close>

fun join_strings :: "string list \<Rightarrow> string" where
  "join_strings [] = []"
| "join_strings [x] = x"
| "join_strings (x # y # ys) = x @ '', '' @ join_strings (y # ys)"

fun toString :: "Value \<Rightarrow> string" where
  "toString (Value t i f s b m l c iv) =
     (case t of
        T_INT \<Rightarrow> to_string_int i
      | FLOAT \<Rightarrow> to_string_double f
      | STRING \<Rightarrow> s
      | BOOL \<Rightarrow> (if b then ''true'' else ''false'')
      | LIST \<Rightarrow> ''['' @ join_strings (map toString l) @ '']''
      | _ \<Rightarrow> ''none'')"

definition toBool :: "Value \<Rightarrow> bool" where
  "toBool v =
     (if type v = BOOL then boolVal v
      else if type v = T_INT then intVal v \<noteq> 0
      else if type v = FLOAT then is_nonzero (floatVal v)
      else if type v = STRING then stringVal v \<noteq> []
      else False)"

subsection \<open>The interpreter's state\<close>

text \<open>
  \<open>class Interpreter\<close> has the fields \<open>variables\<close>, \<open>classes\<close>, \<open>mainClass\<close>
  and \<open>rng\<close>. The state also holds what the process reads and writes: the lines still
  to be read from standard input, what was written to standard output and standard error,
  and the files that can be opened, each as its lines. The
  generator \<open>rng\<close> is the sequence of numbers it will produce. \<open>pow_10 n\<close> is what
  \<open>pow(10, n)\<close> of the C library returns: close to the power, but not always the
  nearest binary64 value, so it is given with the process. The order in which the
  compiler evaluates the two operand expressions of one call is \<open>args_right_to_left\<close>.
\<close>

record Interpreter =
  variables :: "string \<rightharpoonup> Value"
  classes :: "string \<rightharpoonup> ClassDefinition"
  mainClass :: string
  rng :: "nat \<Rightarrow> 32 word"
  pow_10 :: "int32 \<Rightarrow> double"
  stdin :: "string list"
  stdout :: string
  stderr :: string
  files :: "string \<rightharpoonup> string list"
  args_right_to_left :: bool

type_synonym evaluator = "string \<Rightarrow> Interpreter \<Rightarrow> (Value \<times> Interpreter) result"

definition contains :: "string \<Rightarrow> string \<Rightarrow> bool" where
  "contains s pat = (string_find s pat \<noteq> npos)"

definition set_variable :: "string \<Rightarrow> Value \<Rightarrow> Interpreter \<Rightarrow> Interpreter" where
  "set_variable k v st = st\<lparr>variables := (variables st)(k \<mapsto> v)\<rparr>"

subsection \<open>String literals\<close>

text \<open>The first match of the regular expression \<open>\{([^}]+)\}\<close>: its position, its length
  and the text between the braces.\<close>

fun regex_search_braces :: "string \<Rightarrow> nat \<Rightarrow> (nat \<times> nat \<times> string) option" where
  "regex_search_braces [] i = None"
| "regex_search_braces (c # cs) i =
     (if c = CHR ''{'' \<and> takeWhile (\<lambda>x. x \<noteq> CHR ''}'') cs \<noteq> []
           \<and> dropWhile (\<lambda>x. x \<noteq> CHR ''}'') cs \<noteq> []
      then Some (i, length (takeWhile (\<lambda>x. x \<noteq> CHR ''}'') cs) + 2,
                 takeWhile (\<lambda>x. x \<noteq> CHR ''}'') cs)
      else regex_search_braces cs (Suc i))"

text \<open>\<open>interpolate\<close>: the loop runs as long as a match is found, one unit of fuel each.\<close>

fun interpolate :: "evaluator \<Rightarrow> nat \<Rightarrow> string \<Rightarrow> Interpreter \<Rightarrow> (string \<times> Interpreter) result" where
  "interpolate ev fuel str st =
     (case regex_search_braces str 0 of
        None \<Rightarrow> Ok (str, st)
      | Some (pos, len, inner) \<Rightarrow>
          (case fuel of
             0 \<Rightarrow> OutOfFuel
           | Suc k \<Rightarrow>
               andThen (ev inner st) (\<lambda>(val, st1).
                 interpolate ev k (take pos str @ toString val @ drop (pos + len) str) st1)))"

declare interpolate.simps [simp del]

text \<open>The escape loop of \<open>parseStringLiteral\<close>: an unknown escape keeps the backslash
  and drops the character after it.\<close>

fun unescape :: "string \<Rightarrow> string" where
  "unescape [] = []"
| "unescape [c] = [c]"
| "unescape (c # d # cs) =
     (if c = CHR 0x5C
      then (if d = CHR ''n'' then CHR 0x0A
            else if d = CHR ''t'' then CHR 0x09
            else if d = CHR 0x5C then CHR 0x5C
            else if d = CHR 0x22 then CHR 0x22
            else c) # unescape cs
      else c # unescape (d # cs))"

definition parseStringLiteral ::
    "evaluator \<Rightarrow> nat \<Rightarrow> string \<Rightarrow> Interpreter \<Rightarrow> (string \<times> Interpreter) result" where
  "parseStringLiteral ev fuel str st =
     interpolate ev fuel
       (unescape (if 2 \<le> length str \<and> hd str = CHR 0x22 \<and> last str = CHR 0x22
                  then take (length str - 2) (drop 1 str) else str))
       st"

subsection \<open>Literals\<close>

text \<open>\<open>regex_match\<close> against \<open>-?[0-9]+\<close> and against \<open>-?[0-9]+\.[0-9]+\<close>.\<close>

definition strip_minus :: "string \<Rightarrow> string" where
  "strip_minus s = (if s \<noteq> [] \<and> hd s = CHR ''-'' then tl s else s)"

definition is_int_literal :: "string \<Rightarrow> bool" where
  "is_int_literal s = (strip_minus s \<noteq> [] \<and> list_all isdigit (strip_minus s))"

definition is_float_literal :: "string \<Rightarrow> bool" where
  "is_float_literal s =
     (let ip = takeWhile isdigit (strip_minus s);
          r = dropWhile isdigit (strip_minus s)
      in ip \<noteq> [] \<and> r \<noteq> [] \<and> hd r = CHR ''.'' \<and> tl r \<noteq> [] \<and> list_all isdigit (tl r))"

subsection \<open>Comparison and arithmetic\<close>

definition evaluateComparison :: "Value \<Rightarrow> string \<Rightarrow> Value \<Rightarrow> Value" where
  "evaluateComparison left op right =
     Value_bool
       (if type left = T_INT \<and> type right = T_INT then
          (if op = ''=='' then intVal left = intVal right
           else if op = ''!='' then intVal left \<noteq> intVal right
           else if op = ''<'' then sint (intVal left) < sint (intVal right)
           else if op = ''>'' then sint (intVal right) < sint (intVal left)
           else if op = ''<='' then sint (intVal left) \<le> sint (intVal right)
           else if op = ''>='' then sint (intVal right) \<le> sint (intVal left)
           else False)
        else if type left = STRING \<and> type right = STRING \<and> op = ''==''
        then stringVal left = stringVal right
        else False)"

definition as_double :: "Value \<Rightarrow> double" where
  "as_double v = (if type v = FLOAT then floatVal v else double_of_int (intVal v))"

definition evaluateArithmetic :: "Value \<Rightarrow> string \<Rightarrow> Value \<Rightarrow> Value result" where
  "evaluateArithmetic left op right =
     (if type left = T_INT \<and> type right = T_INT then
        (if op = ''+'' then Ok (Value_int (intVal left + intVal right))
         else if op = ''-'' then Ok (Value_int (intVal left - intVal right))
         else if op = ''*'' then Ok (Value_int (intVal left * intVal right))
         else if op = ''/'' then andThen (int_div (intVal left) (intVal right)) (\<lambda>q. Ok (Value_int q))
         else Ok (Value_int 0))
      else if (type left = FLOAT \<or> type left = T_INT) \<and> (type right = FLOAT \<or> type right = T_INT)
      then
        (if op = ''+'' then Ok (Value_double (dadd (as_double left) (as_double right)))
         else if op = ''-'' then Ok (Value_double (dsub (as_double left) (as_double right)))
         else if op = ''*'' then Ok (Value_double (dmul (as_double left) (as_double right)))
         else if op = ''/'' then Ok (Value_double (ddiv (as_double left) (as_double right)))
         else Ok (Value_double (Finite False 0)))
      else Ok Value_none)"

text \<open>The two operand expressions of a comparison or of an arithmetic operation are
  arguments of one call: the compiler chooses which one is evaluated first.\<close>

definition eval_operands ::
    "evaluator \<Rightarrow> string \<Rightarrow> string \<Rightarrow> Interpreter \<Rightarrow> ((Value \<times> Value) \<times> Interpreter) result" where
  "eval_operands ev l r st =
     (if args_right_to_left st
      then andThen (ev r st) (\<lambda>(rv, st1). andThen (ev l st1) (\<lambda>(lv, st2). Ok ((lv, rv), st2)))
      else andThen (ev l st) (\<lambda>(lv, st1). andThen (ev r st1) (\<lambda>(rv, st2). Ok ((lv, rv), st2))))"

subsection \<open>Ternary\<close>

definition evaluateTernary :: "evaluator \<Rightarrow> string \<Rightarrow> Interpreter \<Rightarrow> (Value \<times> Interpreter) result" where
  "evaluateTernary ev expr st =
     (let qpos = string_find expr ''?'';
          cpos = find_from expr '':'' qpos
      in andThen (ev (take qpos expr) st) (\<lambda>(c, st1).
           if toBool c
           then andThen (substr expr (sz (int qpos + 1)) (sz (int cpos - int qpos - 1)))
                  (\<lambda>e. ev e st1)
           else andThen (substr_from expr (sz (int cpos + 1))) (\<lambda>e. ev e st1)))"

subsection \<open>Indexing and slicing\<close>

text \<open>The pieces of a string between the occurrences of a separator.\<close>

fun split_on :: "char \<Rightarrow> string \<Rightarrow> string list" where
  "split_on sep [] = [[]]"
| "split_on sep (c # cs) =
     (if c = sep then [] # split_on sep cs
      else (c # hd (split_on sep cs)) # tl (split_on sep cs))"

text \<open>An \<open>int\<close> converted to \<open>size_t\<close>, and a \<open>size_t\<close> converted to \<open>int\<close>.\<close>

definition size_t_of_int :: "int32 \<Rightarrow> size_t" where
  "size_t_of_int i = sz (sint i)"

definition int_of_size_t :: "size_t \<Rightarrow> int32" where
  "int_of_size_t n = word_of_nat n"

text \<open>The loop \<open>for (int i = start; i < end && i < (int)size; i++)\<close> that copies the
  elements of a slice; reading at a negative index is undefined.\<close>

definition slice_list :: "Value list \<Rightarrow> int32 \<Rightarrow> int32 \<Rightarrow> Value list result" where
  "slice_list l start end =
     (let n = sint (int_of_size_t (length l));
          stop = min (sint end) n
      in if sint start < stop
         then (if sint start < 0 then Raise UndefinedBehaviour
               else Ok (take (nat stop - nat (sint start)) (drop (nat (sint start)) l)))
         else Ok [])"

definition list_value :: "Value list \<Rightarrow> Value" where
  "list_value l = set_listVal l (set_type LIST Value_none)"

text \<open>The texts that \<open>evaluateArrayAccess\<close> cuts out of the expression: the name
  before the first \<open>[\<close>, and the index expression up to the last \<open>]\<close>.\<close>

definition array_access_parts :: "string \<Rightarrow> (string \<times> string) result" where
  "array_access_parts expr =
     (let bracketPos = string_find expr ''[''
      in andThen (substr expr (sz (int bracketPos + 1))
                    (sz (int (string_rfind expr '']'') - int bracketPos - 1))) (\<lambda>indexExpr.
           Ok (trim (take bracketPos expr), indexExpr)))"

text \<open>The last part of \<open>evaluateArrayAccess\<close> (from \<open>Value index = ...\<close> on): the
  index expression is evaluated, a negative index counts from the end, and an index
  outside the container gives the absent value.\<close>

definition index_access ::
    "evaluator \<Rightarrow> string \<Rightarrow> string \<Rightarrow> Interpreter \<Rightarrow> (Value \<times> Interpreter) result" where
  "index_access ev varName indexExpr st =
     andThen (ev indexExpr st) (\<lambda>(index, st1).
       case variables st1 varName of
         None \<Rightarrow> Ok (Value_none, st1)
       | Some var \<Rightarrow>
           (let li = (if sint (intVal index) < 0
                      then int_of_size_t (length (listVal var)) + intVal index
                      else intVal index);
                si = (if sint (intVal index) < 0
                      then int_of_size_t (length (stringVal var)) + intVal index
                      else intVal index)
            in if type var = LIST \<and> type index = T_INT \<and> 0 \<le> sint li
                  \<and> sint li < sint (int_of_size_t (length (listVal var)))
               then Ok (listVal var ! nat (sint li), st1)
               else if type var = STRING \<and> type index = T_INT \<and> 0 \<le> sint si
                  \<and> sint si < sint (int_of_size_t (length (stringVal var)))
               then Ok (Value_string [stringVal var ! nat (sint si)], st1)
               else Ok (Value_none, st1)))"

text \<open>The part for \<open>var[a:b]\<close> (\<open>if (parts.size() >= 2 && ...)\<close>): both bounds are read
  before the kind of the variable is looked at; a variable that is neither a string nor a
  list falls through to the index access.\<close>

definition slice_access ::
    "evaluator \<Rightarrow> string \<Rightarrow> string \<Rightarrow> Interpreter \<Rightarrow> (Value \<times> Interpreter) result" where
  "slice_access ev varName indexExpr st =
     (let parts = split_on CHR '':'' indexExpr
      in case variables st varName of
           None \<Rightarrow> index_access ev varName indexExpr st
         | Some var \<Rightarrow>
             if length parts < 2 then index_access ev varName indexExpr st
             else
               andThen (if parts ! 0 = [] then Ok 0 else stoi (parts ! 0)) (\<lambda>start.
               andThen (if parts ! 1 = []
                        then Ok (int_of_size_t (if type var = STRING then length (stringVal var)
                                                else length (listVal var)))
                        else stoi (parts ! 1)) (\<lambda>end.
                 if type var = STRING
                 then andThen (substr (stringVal var) (size_t_of_int start)
                                 (size_t_of_int (end - start)))
                        (\<lambda>r. Ok (Value_string r, st))
                 else if type var = LIST
                 then andThen (slice_list (listVal var) start end) (\<lambda>r. Ok (list_value r, st))
                 else index_access ev varName indexExpr st)))"

definition evaluateArrayAccess :: "evaluator \<Rightarrow> string \<Rightarrow> Interpreter \<Rightarrow> (Value \<times> Interpreter) result" where
  "evaluateArrayAccess ev expr st =
     andThen (array_access_parts expr) (\<lambda>(varName, indexExpr).
       let parts = split_on CHR '':'' indexExpr
       in if contains indexExpr '':''
          then (if length parts = 3 \<and> parts ! 0 = [] \<and> parts ! 1 = [] \<and> parts ! 2 = ''-1''
                then (case variables st varName of
                        None \<Rightarrow> slice_access ev varName indexExpr st
                      | Some var \<Rightarrow>
                          if type var = STRING then Ok (Value_string (rev (stringVal var)), st)
                          else if type var = LIST then Ok (list_value (rev (listVal var)), st)
                          else slice_access ev varName indexExpr st)
                else slice_access ev varName indexExpr st)
          else index_access ev varName indexExpr st)"

subsection \<open>Member access\<close>

definition sum_list_value :: "Value list \<Rightarrow> int32" where
  "sum_list_value l =
     foldl (\<lambda>sum v. sum + (if type v = T_INT then intVal v
                             else if type v = BOOL then (if boolVal v then 1 else 0) else 0)) 0 l"

definition evaluateMemberAccess :: "evaluator \<Rightarrow> string \<Rightarrow> Interpreter \<Rightarrow> (Value \<times> Interpreter) result" where
  "evaluateMemberAccess ev expr st =
     (let dotPos = string_find expr ''.'';
          objName = trim (take dotPos expr)
      in andThen (substr_from expr (sz (int dotPos + 1))) (\<lambda>m.
         let member = trim m;
             library =
               (if objName = ''math'' \<and> contains member ''sqrt(''
                then andThen (substr member (sz (int (string_find member ''('') + 1))
                                (sz (int (string_find member '')'')
                                     - (int (string_find member ''('') + 1)))) (\<lambda>a.
                     andThen (ev a st) (\<lambda>(arg, st1).
                       Ok (Value_double (dsqrt (if type arg = T_INT then double_of_int (intVal arg)
                                                else floatVal arg)), st1)))
                else if objName = ''random'' \<and> contains member ''rng(''
                then Ok (Value_int (word_of_nat (unat (rng st 0) mod 2)),
                         st\<lparr>rng := (\<lambda>n. rng st (Suc n))\<rparr>)
                else Ok (Value_none, st))
         in case variables st objName of
              None \<Rightarrow> library
            | Some obj \<Rightarrow>
                if type obj = STRING \<and> contains member ''lower''
                then Ok (Value_string (map tolower (stringVal obj)), st)
                else if type obj = LIST \<and> (member = ''len()'' \<or> member = ''len'')
                then Ok (Value_int (int_of_size_t (length (listVal obj))), st)
                else if type obj = LIST \<and> (member = ''sum()'' \<or> member = ''sum'')
                then Ok (Value_int (sum_list_value (listVal obj)), st)
                else if type obj = LIST \<and> contains member ''append(''
                then andThen (substr member (sz (int (string_find member ''('') + 1))
                                (sz (int (string_find member '')'')
                                     - (int (string_find member ''('') + 1)))) (\<lambda>a.
                     andThen (ev a st) (\<lambda>(v, st1).
                       case variables st1 objName of
                         None \<Rightarrow> Raise UndefinedBehaviour
                       | Some obj1 \<Rightarrow>
                           Ok (Value_none,
                               set_variable objName (set_listVal (listVal obj1 @ [v]) obj1) st1)))
                else if type obj = CLASS_INSTANCE
                then (case map_of (instanceVars obj) member of
                        Some v \<Rightarrow> Ok (v, st)
                      | None \<Rightarrow> library)
                else library))"

subsection \<open>List comprehension\<close>

text \<open>The body of the three loops: bind the loop variable, evaluate the output
  expression, append its value.\<close>

fun comprehension_loop ::
    "evaluator \<Rightarrow> string \<Rightarrow> string \<Rightarrow> Value list \<Rightarrow> Value list \<Rightarrow> Interpreter
     \<Rightarrow> (Value list \<times> Interpreter) result" where
  "comprehension_loop ev varName outputExpr [] acc st = Ok (acc, st)"
| "comprehension_loop ev varName outputExpr (item # items) acc st =
     andThen (ev outputExpr (set_variable varName item st)) (\<lambda>(v, st1).
       comprehension_loop ev varName outputExpr items (acc @ [v]) st1)"

text \<open>What a loop runs over: the elements of a list, the characters of a string, the
  numbers below an \<open>int\<close>; nothing for another value.\<close>

definition iteration_items :: "Value \<Rightarrow> Value list" where
  "iteration_items iterable =
     (if type iterable = LIST then listVal iterable
      else if type iterable = STRING then map (\<lambda>c. Value_string [c]) (stringVal iterable)
      else if type iterable = T_INT
      then map (\<lambda>i. Value_int (word_of_nat i)) [0 ..< nat (sint (intVal iterable))]
      else [])"

text \<open>The texts that \<open>evaluateListComprehension\<close> cuts out of the expression: the
  output expression, the name of the loop variable and the iterable expression.\<close>

definition comprehension_parts :: "string \<Rightarrow> (string \<times> string \<times> string) result" where
  "comprehension_parts expr =
     (let bracketStart = string_find expr ''['';
          bracketEnd = string_rfind expr '']''
      in andThen (substr expr (sz (int bracketStart + 1))
                    (sz (int bracketEnd - int bracketStart - 1))) (\<lambda>comprehension.
         let forPos = string_find comprehension '' for '';
             inPos = find_from comprehension '' in '' forPos;
             outputExpr = trim (take forPos comprehension)
         in andThen (substr comprehension (sz (int forPos + 5))
                       (sz (int inPos - int forPos - 5))) (\<lambda>vd.
            andThen (substr_from comprehension (sz (int inPos + 4))) (\<lambda>ie.
            let varDecl = trim vd;
                iterableExpr = trim ie
            in andThen (if contains varDecl '' ''
                        then andThen (substr_from varDecl (sz (int (string_find varDecl '' '') + 1)))
                               (\<lambda>n. Ok (trim n))
                        else Ok varDecl) (\<lambda>varName.
               Ok (outputExpr, varName, iterableExpr))))))"

text \<open>The binding of the loop variable is saved after the iterable expression has been
  evaluated, and put back (or erased, when there was none) after the loop.\<close>

definition evaluateListComprehension ::
    "evaluator \<Rightarrow> string \<Rightarrow> Interpreter \<Rightarrow> (Value \<times> Interpreter) result" where
  "evaluateListComprehension ev expr st =
     andThen (comprehension_parts expr) (\<lambda>(outputExpr, varName, iterableExpr).
     andThen (ev iterableExpr st) (\<lambda>(iterable, st1).
     andThen (comprehension_loop ev varName outputExpr (iteration_items iterable) [] st1)
       (\<lambda>(l, st2).
          Ok (list_value l,
              st2\<lparr>variables := (variables st2)(varName := variables st1 varName)\<rparr>))))"

subsection \<open>Function calls\<close>

text \<open>The loop \<open>while (getline(ss, arg, ','))\<close>: the pieces between the commas, without
  an empty piece at the very end, which \<open>getline\<close> does not deliver.\<close>

definition getline_all :: "char \<Rightarrow> string \<Rightarrow> string list" where
  "getline_all sep s =
     (if last (split_on sep s) = [] then butlast (split_on sep s) else split_on sep s)"

fun eval_args :: "evaluator \<Rightarrow> string list \<Rightarrow> Interpreter \<Rightarrow> (Value list \<times> Interpreter) result" where
  "eval_args ev [] st = Ok ([], st)"
| "eval_args ev (a # as) st =
     andThen (ev (trim a) st) (\<lambda>(v, st1).
       andThen (eval_args ev as st1) (\<lambda>(vs, st2). Ok (v # vs, st2)))"

definition evaluateFunctionCall ::
    "evaluator \<Rightarrow> string \<Rightarrow> Interpreter \<Rightarrow> (Value \<times> Interpreter) result" where
  "evaluateFunctionCall ev expr st =
     (let parenPos = string_find expr ''('';
          funcName = trim (take parenPos expr)
      in andThen (substr expr (sz (int parenPos + 1))
                    (sz (int (string_rfind expr '')'') - int parenPos - 1))) (\<lambda>argsStr.
         andThen (if argsStr = [] then Ok ([], st)
                  else eval_args ev (getline_all CHR '','' argsStr) st) (\<lambda>(args, st1).
           if funcName = ''print''
           then Ok (Value_none, st1\<lparr>stdout := stdout st1 @ concat (map toString args)\<rparr>)
           else if funcName = ''input''
           then (case stdin st1 of
                   [] \<Rightarrow> Ok (Value_string [], st1)
                 | l # ls \<Rightarrow> Ok (Value_string l, st1\<lparr>stdin := ls\<rparr>))
           else if funcName = ''int''
           then (if args = [] then Ok (Value_int 0, st1)
                 else if type (hd args) = STRING
                 then andThen (stoi (stringVal (hd args))) (\<lambda>i. Ok (Value_int i, st1))
                 else if type (hd args) = FLOAT
                 then Ok (Value_int (int_of_double (floatVal (hd args))), st1)
                 else if type (hd args) = BOOL
                 then Ok (Value_int (if boolVal (hd args) then 1 else 0), st1)
                 else Ok (Value_int 0, st1))
           else if funcName = ''float''
           then (if args = [] then Ok (Value_double (Finite False 0), st1)
                 else if type (hd args) = T_INT
                 then Ok (Value_double (double_of_int (intVal (hd args))), st1)
                 else if type (hd args) = STRING
                 then andThen (stod (stringVal (hd args))) (\<lambda>d. Ok (Value_double d, st1))
                 else Ok (Value_double (Finite False 0), st1))
           else if funcName = ''bool''
           then Ok (if args = [] then Value_bool False else Value_bool (toBool (hd args)), st1)
           else if funcName = ''round'' \<and> 2 \<le> length args
           then Ok (Value_double
                      (ddiv (dround (dmul (as_double (args ! 0))
                                      (pow_10 st1 (intVal (args ! 1)))))
                            (pow_10 st1 (intVal (args ! 1)))), st1)
           else if funcName = ''ceil'' \<and> args \<noteq> []
           then Ok (Value_double (dceil (as_double (hd args))), st1)
           else (case classes st1 funcName of
                   Some c \<Rightarrow>
                     Ok (set_classInstance (Some c) (set_type CLASS_INSTANCE Value_none), st1)
                 | None \<Rightarrow> Ok (Value_none, st1)))))"

subsection \<open>Expressions\<close>

text \<open>The loops over the operators: the first operator of the list, in the list's
  order, that occurs at an admissible position.\<close>

fun first_equality :: "string \<Rightarrow> string list \<Rightarrow> (string \<times> size_t) option" where
  "first_equality expr [] = None"
| "first_equality expr (op # ops) =
     (if string_find expr op \<noteq> npos \<and> 0 < string_find expr op
      then Some (op, string_find expr op)
      else first_equality expr ops)"

fun first_ordering :: "string \<Rightarrow> string list \<Rightarrow> (string \<times> size_t) option" where
  "first_ordering expr [] = None"
| "first_ordering expr (op # ops) =
     (if string_find expr op \<noteq> npos \<and> 0 < string_find expr op
         \<and> (if length expr \<le> string_find expr op + 1 then True
             else expr ! (string_find expr op + 1) \<noteq> CHR ''='')
      then Some (op, string_find expr op)
      else first_ordering expr ops)"

fun first_arithmetic :: "string \<Rightarrow> string list \<Rightarrow> (string \<times> size_t) option" where
  "first_arithmetic expr [] = None"
| "first_arithmetic expr (op # ops) =
     (if string_rfind expr op \<noteq> npos \<and> 0 < string_rfind expr op
         \<and> string_rfind expr op < sz (int (length expr) - 1)
      then Some (op, string_rfind expr op)
      else first_arithmetic expr ops)"

text \<open>
  The body of \<open>evaluateExpression\<close>. Its recursive calls go through \<open>ev\<close>, the
  evaluator with one unit of fuel less; \<open>fuel\<close> bounds the loop of \<open>interpolate\<close>.
\<close>

definition evaluateExpression_body ::
    "evaluator \<Rightarrow> nat \<Rightarrow> string \<Rightarrow> Interpreter \<Rightarrow> (Value \<times> Interpreter) result" where
  "evaluateExpression_body ev fuel expr0 st =
     (let expr = trim expr0
      in if 2 \<le> length expr \<and> hd expr = CHR 0x22 \<and> last expr = CHR 0x22
         then andThen (parseStringLiteral ev fuel expr st) (\<lambda>(s, st1). Ok (Value_string s, st1))
         else if expr = ''true'' then Ok (Value_bool True, st)
         else if expr = ''false'' then Ok (Value_bool False, st)
         else if is_int_literal expr then andThen (stoi expr) (\<lambda>i. Ok (Value_int i, st))
         else if is_float_literal expr then andThen (stod expr) (\<lambda>d. Ok (Value_double d, st))
         else if contains expr ''['' \<and> contains expr '' for ''
         then evaluateListComprehension ev expr st
         else if contains expr ''('' \<and> string_find expr ''['' = npos
         then evaluateFunctionCall ev expr st
         else if contains expr ''['' \<and> contains expr '']'' \<and> string_find expr '' for '' = npos
         then evaluateArrayAccess ev expr st
         else if contains expr ''.'' then evaluateMemberAccess ev expr st
         else if contains expr ''?'' \<and> contains expr '':'' then evaluateTernary ev expr st
         else if contains expr '' or ''
         then andThen (ev (take (string_find expr '' or '') expr) st) (\<lambda>(l, st1).
                if toBool l then Ok (Value_bool True, st1)
                else andThen (substr_from expr (string_find expr '' or '' + 4)) (\<lambda>e.
                     andThen (ev e st1) (\<lambda>(r, st2). Ok (Value_bool (toBool r), st2))))
         else if contains expr '' and ''
         then andThen (ev (take (string_find expr '' and '') expr) st) (\<lambda>(l, st1).
                if toBool l
                then andThen (substr_from expr (string_find expr '' and '' + 5)) (\<lambda>e.
                     andThen (ev e st1) (\<lambda>(r, st2). Ok (Value_bool (toBool r), st2)))
                else Ok (Value_bool False, st1))
         else case first_equality expr [''=='', ''!='', ''<='', ''>=''] of
           Some (op, pos) \<Rightarrow>
             andThen (substr_from expr (pos + length op)) (\<lambda>r.
             andThen (eval_operands ev (trim (take pos expr)) (trim r) st) (\<lambda>((lv, rv), st1).
               Ok (evaluateComparison lv op rv, st1)))
         | None \<Rightarrow>
         (case first_ordering expr [''<'', ''>''] of
           Some (op, pos) \<Rightarrow>
             andThen (substr_from expr (pos + 1)) (\<lambda>r.
             andThen (eval_operands ev (trim (take pos expr)) (trim r) st) (\<lambda>((lv, rv), st1).
               Ok (evaluateComparison lv op rv, st1)))
         | None \<Rightarrow>
         (case first_arithmetic expr [''+'', ''-'', ''*'', ''/''] of
           Some (op, pos) \<Rightarrow>
             andThen (substr_from expr (pos + 1)) (\<lambda>r.
             andThen (eval_operands ev (take pos expr) r st) (\<lambda>((lv, rv), st1).
             andThen (evaluateArithmetic lv op rv) (\<lambda>v. Ok (v, st1))))
         | None \<Rightarrow>
         (case variables st expr of
            Some v \<Rightarrow> Ok (v, st)
          | None \<Rightarrow> Ok (Value_none, st)))))"

text \<open>\<open>evaluateExpression\<close> with a bound on the depth of its recursion.\<close>

primrec evaluateExpression :: "nat \<Rightarrow> evaluator" where
  "evaluateExpression 0 = (\<lambda>expr st. OutOfFuel)"
| "evaluateExpression (Suc n) = evaluateExpression_body (evaluateExpression n) n"

declare evaluateExpression.simps [simp del]

subsection \<open>Statements\<close>

text \<open>
  The regular expressions of \<open>executeStatement\<close>, matched against the whole statement
  as \<open>regex_match\<close> does. \<open>\s\<close> is \<open>isspace\<close>, \<open>\w\<close> is \<open>isword\<close>, and
  \<open>.\<close> is every character but a line feed and a carriage return. Each function returns
  the groups of the match.
\<close>

definition not_line_terminator :: "char \<Rightarrow> bool" where
  "not_line_terminator c = (c \<notin> set [CHR 0x0A, CHR 0x0D])"

text \<open>\<open>\s*(.+)\<close> up to the end: the white space is taken greedily, and given back only
  when nothing would be left for the group.\<close>

definition match_value :: "string \<Rightarrow> string option" where
  "match_value r =
     (if dropWhile isspace r \<noteq> []
      then (if list_all not_line_terminator (dropWhile isspace r)
            then Some (dropWhile isspace r) else None)
      else if r \<noteq> [] \<and> not_line_terminator (last r) then Some [last r]
      else None)"

text \<open>\<open>(\w+)\s*=\s*(.+)\<close>\<close>

definition match_name_assign :: "string \<Rightarrow> (string \<times> string) option" where
  "match_name_assign s =
     (let nm = takeWhile isword s;
          r = dropWhile isspace (dropWhile isword s)
      in if nm \<noteq> [] \<and> r \<noteq> [] \<and> hd r = CHR ''=''
         then (case match_value (tl r) of Some v \<Rightarrow> Some (nm, v) | None \<Rightarrow> None)
         else None)"

text \<open>\<open>\s+(\w+)\s*=\s*(.+)\<close> and \<open>\s+(\w+)\<close>\<close>

definition match_space_name_assign :: "string \<Rightarrow> (string \<times> string) option" where
  "match_space_name_assign r =
     (if r \<noteq> [] \<and> isspace (hd r) then match_name_assign (dropWhile isspace r) else None)"

definition match_space_name :: "string \<Rightarrow> string option" where
  "match_space_name r =
     (if r \<noteq> [] \<and> isspace (hd r) \<and> takeWhile isword (dropWhile isspace r) \<noteq> []
         \<and> dropWhile isword (dropWhile isspace r) = []
      then Some (takeWhile isword (dropWhile isspace r)) else None)"

text \<open>An alternation of words at the start: the first alternative for which the rest of
  the expression matches too.\<close>

fun match_alternatives ::
    "string list \<Rightarrow> (string \<Rightarrow> 'a option) \<Rightarrow> string \<Rightarrow> (string \<times> 'a) option" where
  "match_alternatives [] rest s = None"
| "match_alternatives (t # ts) rest s =
     (if prefix t s
      then (case rest (drop (length t) s) of
              Some r \<Rightarrow> Some (t, r)
            | None \<Rightarrow> match_alternatives ts rest s)
      else match_alternatives ts rest s)"

text \<open>\<open>(int|float|str|bool|map)\s+(\w+)\s*=\s*(.+)\<close>\<close>

definition varDeclPattern :: "string \<Rightarrow> (string \<times> string \<times> string) option" where
  "varDeclPattern stmt =
     match_alternatives [''int'', ''float'', ''str'', ''bool'', ''map''] match_space_name_assign stmt"

text \<open>\<open>(int|float|str|bool|map|str\[\]|bool\[\])\s+(\w+)\<close>\<close>

definition varDeclPattern2 :: "string \<Rightarrow> (string \<times> string) option" where
  "varDeclPattern2 stmt =
     match_alternatives [''int'', ''float'', ''str'', ''bool'', ''map'', ''str[]'', ''bool[]'']
       match_space_name stmt"

text \<open>\<open>(\w+)\s*=\s*(.+)\<close>\<close>

definition assignPattern :: "string \<Rightarrow> (string \<times> string) option" where
  "assignPattern stmt = match_name_assign stmt"

text \<open>\<open>(\w+)\.(\w+)\s*=\s*(.+)\<close>\<close>

definition memberAssignPattern :: "string \<Rightarrow> (string \<times> string \<times> string) option" where
  "memberAssignPattern stmt =
     (if takeWhile isword stmt \<noteq> [] \<and> dropWhile isword stmt \<noteq> []
         \<and> hd (dropWhile isword stmt) = CHR ''.''
      then (case match_name_assign (tl (dropWhile isword stmt)) of
              Some (field, v) \<Rightarrow> Some (takeWhile isword stmt, field, v)
            | None \<Rightarrow> None)
      else None)"

definition executeStatement :: "evaluator \<Rightarrow> string \<Rightarrow> Interpreter \<Rightarrow> Interpreter result" where
  "executeStatement ev line st =
     (let stmt = trim (removeComments line)
      in if stmt = [] then Ok st
         else case varDeclPattern stmt of
           Some (ty, nm, e) \<Rightarrow> andThen (ev e st) (\<lambda>(v, st1). Ok (set_variable nm v st1))
         | None \<Rightarrow>
         (case varDeclPattern2 stmt of
           Some (ty, nm) \<Rightarrow>
             Ok (set_variable nm
                   (if ty = ''map'' then set_type MAP Value_none
                    else if contains ty ''[]'' then set_type LIST Value_none
                    else if ty = ''int'' then Value_int 0
                    else Value_none) st)
         | None \<Rightarrow>
         (case assignPattern stmt of
           Some (nm, e) \<Rightarrow> andThen (ev e st) (\<lambda>(v, st1). Ok (set_variable nm v st1))
         | None \<Rightarrow>
         (case memberAssignPattern stmt of
           Some (obj, field, e) \<Rightarrow>
             (case variables st obj of
                None \<Rightarrow> Ok st
              | Some inst \<Rightarrow>
                  if type inst = CLASS_INSTANCE
                  then andThen (ev e st) (\<lambda>(v, st1).
                         let cur = (case variables st1 obj of Some c \<Rightarrow> c | None \<Rightarrow> Value_none)
                         in Ok (set_variable obj
                                  (set_instanceVars (AList.update field v (instanceVars cur)) cur)
                                  st1))
                  else Ok st)
         | None \<Rightarrow>
           if contains stmt ''++''
           then (let varName = trim (take (string_find stmt ''++'') stmt)
                 in case variables st varName of
                      None \<Rightarrow> Ok st
                    | Some v \<Rightarrow>
                        if type v = T_INT
                        then Ok (set_variable varName (set_intVal (intVal v + 1) v) st)
                        else Ok st)
           else if contains stmt ''*=''
           then (let pos = string_find stmt ''*='';
                     varName = trim (take pos stmt)
                 in andThen (substr_from stmt (pos + 2)) (\<lambda>e.
                    andThen (ev e st) (\<lambda>(val, st1).
                      case variables st1 varName of
                        None \<Rightarrow> Ok st1
                      | Some v \<Rightarrow>
                          if type v = T_INT \<and> type val = T_INT
                          then Ok (set_variable varName (set_intVal (intVal v * intVal val) v) st1)
                          else Ok st1)))
           else if contains stmt ''(''
           then andThen (evaluateFunctionCall ev stmt st) (\<lambda>(v, st1). Ok st1)
           else Ok st))))"

subsection \<open>Blocks\<close>

text \<open>
  The loop that collects the lines of a block, run on the lines from position \<open>i\<close> on:
  it returns the collected lines and the position where it stopped, which is the line
  that closes the block, or the end.
\<close>

fun collect_block :: "string list \<Rightarrow> nat \<Rightarrow> int \<Rightarrow> string list \<times> nat" where
  "collect_block [] i braceCount = ([], i)"
| "collect_block (l # ls) i braceCount =
     (if braceCount \<le> 0 then ([], i)
      else if contains l ''}'' \<and> (if contains l ''{'' then braceCount + 1 else braceCount) - 1 = 0
      then ([], i)
      else (l # fst (collect_block ls (Suc i)
                       ((if contains l ''{'' then braceCount + 1 else braceCount)
                        - (if contains l ''}'' then 1 else 0))),
            snd (collect_block ls (Suc i)
                   ((if contains l ''{'' then braceCount + 1 else braceCount)
                    - (if contains l ''}'' then 1 else 0)))))"

type_synonym block_runner = "string list \<Rightarrow> Interpreter \<Rightarrow> Interpreter result"

text \<open>The loops of a \<open>for\<close> block: the body runs once for each item. The loop of a
  \<open>while\<close> block runs as long as the condition holds, one unit of fuel each time.\<close>

fun forLoop :: "block_runner \<Rightarrow> string \<Rightarrow> Value list \<Rightarrow> string list \<Rightarrow> Interpreter \<Rightarrow> Interpreter result" where
  "forLoop run_block varName [] loopBlock st = Ok st"
| "forLoop run_block varName (item # items) loopBlock st =
     andThen (run_block loopBlock (set_variable varName item st)) (\<lambda>st1.
       forLoop run_block varName items loopBlock st1)"

fun whileLoop ::
    "block_runner \<Rightarrow> evaluator \<Rightarrow> nat \<Rightarrow> string \<Rightarrow> string list \<Rightarrow> Interpreter \<Rightarrow> Interpreter result" where
  "whileLoop run_block ev 0 condition loopBlock st = OutOfFuel"
| "whileLoop run_block ev (Suc k) condition loopBlock st =
     andThen (ev condition st) (\<lambda>(c, st1).
       if toBool c
       then andThen (run_block loopBlock st1) (\<lambda>st2. whileLoop run_block ev k condition loopBlock st2)
       else Ok st1)"

text \<open>The text between the first \<open>(\<close> and the first \<open>)\<close> of a block head.\<close>

definition head_text :: "string \<Rightarrow> string result" where
  "head_text line =
     substr line (sz (int (string_find line ''('') + 1))
       (sz (int (string_find line '')'') - int (string_find line ''('') - 1))"

type_synonym block_executor = "string list \<Rightarrow> nat \<Rightarrow> Interpreter \<Rightarrow> (nat \<times> Interpreter) result"

text \<open>
  The body of \<open>executeBlock\<close>: one round of its loop over the lines. The next round,
  and the execution of a nested block, go through \<open>eb\<close>, the executor with one unit of
  fuel less; it returns the final position with the state.
\<close>

definition executeBlock_body ::
    "block_executor \<Rightarrow> evaluator \<Rightarrow> nat \<Rightarrow> string list \<Rightarrow> nat \<Rightarrow> Interpreter
     \<Rightarrow> (nat \<times> Interpreter) result" where
  "executeBlock_body eb ev fuel lines i st =
     (if length lines \<le> i then Ok (i, st)
      else let line = trim (removeComments (lines ! i));
               run_block = (\<lambda>b s. andThen (eb b 0 s) (\<lambda>(j, s1). Ok s1));
               collected = collect_block (drop (i + 2) lines) (i + 2) 1
           in if line = [] then eb lines (Suc i) st
              else if string_find line ''while'' = 0
              then andThen (head_text line) (\<lambda>condition.
                   andThen (whileLoop run_block ev fuel condition (fst collected) st) (\<lambda>st1.
                     eb lines (Suc (snd collected)) st1))
              else if string_find line ''for'' = 0
              then andThen (head_text line) (\<lambda>forHeader.
                   let inPos = string_find forHeader '' in '';
                       sp = string_find forHeader '' ''
                   in andThen (substr forHeader (sz (int sp + 1)) (sz (int inPos - int sp - 1)))
                        (\<lambda>vn.
                      andThen (substr_from forHeader (sz (int inPos + 4))) (\<lambda>ie.
                      andThen (ev (trim ie) st) (\<lambda>(iterable, st1).
                      andThen (forLoop run_block (trim vn) (iteration_items iterable)
                                 (fst collected) st1) (\<lambda>st2.
                        eb lines (Suc (snd collected)) st2)))))
              else if string_find line ''return'' = 0 then eb lines (Suc i) st
              else andThen (executeStatement ev line st) (\<lambda>st1. eb lines (Suc i) st1))"

primrec executeBlock :: "nat \<Rightarrow> block_executor" where
  "executeBlock 0 = (\<lambda>lines i st. OutOfFuel)"
| "executeBlock (Suc n) = executeBlock_body (executeBlock n) (evaluateExpression n) n"

declare executeBlock.simps [simp del]

subsection \<open>Loading and running a program\<close>

text \<open>
  The scanning loops of \<open>loadProgram\<close> and \<open>run\<close> move a position forward through
  the lines; each function here takes the lines from the position on and returns the
  lines from the position where its loop stops.
\<close>

text \<open>The loop over a class body in \<open>loadProgram\<close> stops at the line that closes the
  class.\<close>

fun skip_class_body :: "string list \<Rightarrow> int \<Rightarrow> string list" where
  "skip_class_body [] braceCount = []"
| "skip_class_body (l # ls) braceCount =
     (if braceCount \<le> 0 then l # ls
      else if contains l ''}'' \<and> (if contains l ''{'' then braceCount + 1 else braceCount) - 1 = 0
      then l # ls
      else skip_class_body ls
             ((if contains l ''{'' then braceCount + 1 else braceCount)
              - (if contains l ''}'' then 1 else 0)))"

lemma length_skip_class_body: "length (skip_class_body ls bc) \<le> length ls"
  by (induction ls arbitrary: bc) (auto simp: le_SucI)

definition new_ClassDefinition :: "string \<Rightarrow> ClassDefinition" where
  "new_ClassDefinition n = ClassDefinition n [] [] []"

text \<open>The class name of a line that starts with \<open>class\<close> and a space.\<close>

definition class_name_of :: "string \<Rightarrow> string result" where
  "class_name_of lin =
     (let nameEnd = (if string_find lin '' {'' = npos then string_find lin ''{''
                     else string_find lin '' {'')
      in andThen (substr lin 6 (sz (int nameEnd - 6))) (\<lambda>n. Ok (trim n)))"

function parse_lines :: "string list \<Rightarrow> Interpreter \<Rightarrow> Interpreter result" where
  "parse_lines [] st = Ok st"
| "parse_lines (l # ls) st =
     (let lin = trim (removeComments l)
      in andThen (if string_find lin ''$'' = 0
                  then andThen (substr_from lin 1) (\<lambda>n. Ok (st\<lparr>mainClass := trim n\<rparr>))
                  else Ok st) (\<lambda>st1.
           if string_find lin ''#'' = 0 then parse_lines ls st1
           else if string_find lin ''@'' = 0 then parse_lines ls st1
           else if string_find lin ''class '' = 0
           then andThen (class_name_of lin) (\<lambda>className.
                  parse_lines (tl (skip_class_body ls 1))
                    (st1\<lparr>classes := (classes st1)(className \<mapsto> new_ClassDefinition className)\<rparr>))
           else parse_lines ls st1))"
  by pat_completeness auto
termination
  by (relation "measure (\<lambda>(ls, st). length ls)")
     (auto simp: less_Suc_eq_le intro: order_trans [OF diff_le_self length_skip_class_body])

definition loadProgram :: "string \<Rightarrow> Interpreter \<Rightarrow> Interpreter result" where
  "loadProgram filename st =
     (case files st filename of
        None \<Rightarrow>
          Ok (st\<lparr>stderr := stderr st @ ''Error: Could not open file '' @ filename @ [CHR 0x0A]\<rparr>)
      | Some lines \<Rightarrow> parse_lines lines st)"

text \<open>The two loops of \<open>run\<close> that pass over a function definition: up to the first
  line with an opening brace, then until the braces are balanced.\<close>

fun skip_to_brace :: "string list \<Rightarrow> string list \<times> int" where
  "skip_to_brace [] = ([], 0)"
| "skip_to_brace (l # ls) = (if contains l ''{'' then (ls, 1) else skip_to_brace ls)"

fun skip_fn_body :: "string list \<Rightarrow> int \<Rightarrow> string list" where
  "skip_fn_body [] fnBraceCount = []"
| "skip_fn_body (l # ls) fnBraceCount =
     (if fnBraceCount \<le> 0 then l # ls
      else skip_fn_body ls
             (fnBraceCount + (if contains l ''{'' then 1 else 0)
              - (if contains l ''}'' then 1 else 0)))"

definition skip_fn :: "string list \<Rightarrow> string list" where
  "skip_fn ls = skip_fn_body (fst (skip_to_brace ls)) (snd (skip_to_brace ls))"

lemma length_skip_to_brace: "length (fst (skip_to_brace ls)) \<le> length ls"
  by (induction ls) (auto simp: le_SucI)

lemma length_skip_fn_body: "length (skip_fn_body ls c) \<le> length ls"
  by (induction ls arbitrary: c) (auto simp: le_SucI)

lemma length_skip_fn: "length (skip_fn (l # ls)) \<le> length ls"
proof -
  have "length (fst (skip_to_brace (l # ls))) \<le> length ls"
    using length_skip_to_brace [of ls] by simp
  then show ?thesis
    unfolding skip_fn_def
    by (rule order_trans [OF length_skip_fn_body])
qed

text \<open>The loop of \<open>run\<close> over the body of the main class: it keeps the lines that do
  not start a function definition.\<close>

function collect_main_body :: "string list \<Rightarrow> int \<Rightarrow> string list" where
  "collect_main_body [] braceCount = []"
| "collect_main_body (l # ls) braceCount =
     (if braceCount \<le> 0 then []
      else if contains l ''}'' \<and> (if contains l ''{'' then braceCount + 1 else braceCount) - 1 = 0
      then []
      else if string_find (trim (removeComments l)) ''fn '' = 0
      then collect_main_body (skip_fn (l # ls))
             ((if contains l ''{'' then braceCount + 1 else braceCount)
              - (if contains l ''}'' then 1 else 0))
      else l # collect_main_body ls
                 ((if contains l ''{'' then braceCount + 1 else braceCount)
                  - (if contains l ''}'' then 1 else 0)))"
  by pat_completeness auto
termination
  by (relation "measure (\<lambda>(ls, c). length ls)")
     (auto simp: less_Suc_eq_le length_skip_fn)

text \<open>The search for the line that opens the main class.\<close>

fun find_main_body :: "string \<Rightarrow> string list \<Rightarrow> string list" where
  "find_main_body mc [] = []"
| "find_main_body mc (l # ls) =
     (if string_find (trim (removeComments l)) (''class '' @ mc) = 0
      then collect_main_body ls 1
      else find_main_body mc ls)"

definition run :: "nat \<Rightarrow> Interpreter \<Rightarrow> Interpreter result" where
  "run fuel st =
     (if mainClass st = [] \<or> classes st (mainClass st) = None
      then Ok (st\<lparr>stderr := stderr st @ ''Error: Main class not found'' @ [CHR 0x0A]\<rparr>)
      else andThen (loadProgram ''program.hm'' st) (\<lambda>st1.
           andThen (executeBlock fuel
                      (find_main_body (mainClass st1)
                         (case files st1 ''program.hm'' of None \<Rightarrow> [] | Some lines \<Rightarrow> lines))
                      0 st1) (\<lambda>(i, st2). Ok st2)))"

text \<open>The constructor of the interpreter, in a process with the given random numbers,
  powers of ten, standard input, files and order of evaluation; then \<open>main\<close>.\<close>

definition new_Interpreter ::
    "(nat \<Rightarrow> 32 word) \<Rightarrow> (int32 \<Rightarrow> double) \<Rightarrow> string list \<Rightarrow> (string \<rightharpoonup> string list) \<Rightarrow> bool
     \<Rightarrow> Interpreter" where
  "new_Interpreter seed pw input fs rtl =
     \<lparr>variables = Map.empty, classes = Map.empty, mainClass = [], rng = seed, pow_10 = pw,
      stdin = input, stdout = [], stderr = [], files = fs, args_right_to_left = rtl\<rparr>"

definition main :: "nat \<Rightarrow> Interpreter \<Rightarrow> Interpreter result" where
  "main fuel interpreter =
     andThen (loadProgram ''program.hm'' interpreter) (\<lambda>st1. run fuel st1)"

subsection \<open>Example states\<close>

text \<open>A fresh interpreter whose environment holds the given bindings.\<close>

definition with_variables :: "(string \<times> Value) list \<Rightarrow> Interpreter" where
  "with_variables bs =
     (new_Interpreter (\<lambda>n. 0) (\<lambda>n. round_binary64 False (pow10 (sint n))) [] Map.empty False)
       \<lparr>variables := map_of bs\<rparr>"

text \<open>A text without a number at its start: after the white space and the sign that
  \<open>strtol\<close> and \<open>strtod\<close> pass over, nothing is left, or the next character can start
  neither digits, nor a fraction, nor \<open>inf\<close> or \<open>nan\<close>.\<close>

definition no_number_at_start :: "string \<Rightarrow> bool" where
  "no_number_at_start s =
     (if after_sign (dropWhile isspace s) = [] then True
      else hd (after_sign (dropWhile isspace s)) \<notin> set ''0123456789.iInN'')"

text \<open>What a run wrote to standard output, when it returned.\<close>

definition output_of :: "Interpreter result \<Rightarrow> string option" where
  "output_of r = (case r of Ok st \<Rightarrow> Some (stdout st) | Raise e \<Rightarrow> None | OutOfFuel \<Rightarrow> None)"

text \<open>Two programs with the same \<open>for\<close> block: the opening brace at the end of the head
  line, and on a line of its own after the head.\<close>

definition for_program_brace_on_head :: "string list" where
  "for_program_brace_on_head =
     [''$Main'', ''class Main {'', ''for (int i in 3) {'', ''print(i)'', ''}'', ''}'']"

definition for_program_brace_on_own_line :: "string list" where
  "for_program_brace_on_own_line =
     [''$Main'', ''class Main {'', ''for (int i in 3)'', ''{'', ''print(i)'', ''}'', ''}'']"

section \<open>Properties\<close>

lemmas string_defs =
  trim_def find_first_not_of_def find_last_not_of_def whitespace_def npos_def
  string_find_def string_rfind_def find_from_def substr_def substr_from_def sz_def contains_def
  removeComments_def Let_def

lemmas literal_defs = is_int_literal_def is_float_literal_def strip_minus_def isdigit_def

lemmas example_defs = with_variables_def new_Interpreter_def

subsection \<open>Unfolding one level of the recursion\<close>

lemma evaluateExpression_0: "evaluateExpression 0 expr st = OutOfFuel"
  by (simp add: evaluateExpression.simps)

lemma evaluateExpression_Suc:
  "evaluateExpression (Suc n) expr st = evaluateExpression_body (evaluateExpression n) n expr st"
  by (simp add: evaluateExpression.simps)

lemma executeBlock_0: "executeBlock 0 lines i st = OutOfFuel"
  by (simp add: executeBlock.simps)

lemma executeBlock_Suc:
  "executeBlock (Suc n) lines i st
   = executeBlock_body (executeBlock n) (evaluateExpression n) n lines i st"
  by (simp add: executeBlock.simps)

lemmas eval_defs = evaluateExpression_Suc evaluateExpression_body_def

subsection \<open>The fields of constructed values\<close>

lemma Value_int_fields [simp]:
  "type (Value_int i) = T_INT" "intVal (Value_int i) = i" "floatVal (Value_int i) = Finite False 0"
  "stringVal (Value_int i) = []" "boolVal (Value_int i) = False" "listVal (Value_int i) = []"
  "instanceVars (Value_int i) = []"
  by (simp_all add: Value_int_def)

lemma Value_string_fields [simp]:
  "type (Value_string s) = STRING" "intVal (Value_string s) = 0"
  "floatVal (Value_string s) = Finite False 0" "stringVal (Value_string s) = s"
  "boolVal (Value_string s) = False" "listVal (Value_string s) = []"
  "instanceVars (Value_string s) = []"
  by (simp_all add: Value_string_def)

lemma Value_bool_fields [simp]:
  "type (Value_bool b) = BOOL" "intVal (Value_bool b) = 0" "floatVal (Value_bool b) = Finite False 0"
  "stringVal (Value_bool b) = []" "boolVal (Value_bool b) = b" "listVal (Value_bool b) = []"
  "instanceVars (Value_bool b) = []"
  by (simp_all add: Value_bool_def)

lemma Value_double_fields [simp]:
  "type (Value_double d) = FLOAT" "intVal (Value_double d) = 0" "floatVal (Value_double d) = d"
  "stringVal (Value_double d) = []" "boolVal (Value_double d) = False"
  "listVal (Value_double d) = []" "instanceVars (Value_double d) = []"
  by (simp_all add: Value_double_def)

lemma Value_none_fields [simp]:
  "type Value_none = NONE" "intVal Value_none = 0" "floatVal Value_none = Finite False 0"
  "stringVal Value_none = []" "boolVal Value_none = False" "listVal Value_none = []"
  "instanceVars Value_none = []"
  by (simp_all add: Value_none_def)

lemma list_value_fields [simp]:
  "type (list_value l) = LIST" "intVal (list_value l) = 0" "floatVal (list_value l) = Finite False 0"
  "stringVal (list_value l) = []" "boolVal (list_value l) = False" "listVal (list_value l) = l"
  "instanceVars (list_value l) = []"
  by (simp_all add: list_value_def set_listVal_def set_type_def)

lemma Value_int_eq [simp]: "(Value_int i = Value_int j) = (i = j)"
  by (simp add: Value_int_def)

lemma Value_string_eq [simp]: "(Value_string s = Value_string t) = (s = t)"
  by (simp add: Value_string_def)

lemma Value_kinds_differ [simp]:
  "Value_int i \<noteq> Value_none" "Value_none \<noteq> Value_int i"
  "Value_string s \<noteq> Value_none" "Value_none \<noteq> Value_string s"
  "Value_int i \<noteq> Value_string s" "Value_string s \<noteq> Value_int i"
  "list_value l \<noteq> Value_none" "Value_none \<noteq> list_value l"
  by (simp_all add: Value_int_def Value_none_def Value_string_def list_value_def set_listVal_def
      set_type_def)

lemma set_listVal_list_value [simp]: "set_listVal l (list_value m) = list_value l"
  by (simp add: list_value_def set_listVal_def set_type_def)

subsection \<open>Writing a variable\<close>

lemma set_variable_fields [simp]:
  "variables (set_variable k v st) = (variables st)(k \<mapsto> v)"
  "classes (set_variable k v st) = classes st"
  "mainClass (set_variable k v st) = mainClass st"
  "stdout (set_variable k v st) = stdout st"
  "stdin (set_variable k v st) = stdin st"
  "files (set_variable k v st) = files st"
  "args_right_to_left (set_variable k v st) = args_right_to_left st"
  by (simp_all add: set_variable_def)

lemma set_variable_twice [simp]: "set_variable k v (set_variable k w st) = set_variable k v st"
  by (simp add: set_variable_def)

lemma restore_variables [simp]: "(set_variable k v st)\<lparr>variables := variables st\<rparr> = st"
  by (simp add: set_variable_def)

subsection \<open>Arithmetic splits at the rightmost operator\<close>

text \<open>
  C1. With \<open>a\<close>, \<open>b\<close> and \<open>c\<close> bound to integers, the expression \<open>a-b+c\<close> is split at
  its rightmost \<open>+\<close>, whose left operand \<open>a-b\<close> is split at its \<open>-\<close>: the value is
  \<open>(a - b) + c\<close> in 32-bit arithmetic, and the state is unchanged.
\<close>

theorem minus_plus_is_left_nested:
  assumes "variables st ''a'' = Some va" and "type va = T_INT"
    and "variables st ''b'' = Some vb" and "type vb = T_INT"
    and "variables st ''c'' = Some vc" and "type vc = T_INT"
  shows "evaluateExpression (Suc (Suc (Suc n))) ''a-b+c'' st
         = Ok (Value_int ((intVal va - intVal vb) + intVal vc), st)"
  using assms
  by (simp add: string_defs literal_defs eval_defs eval_operands_def evaluateArithmetic_def)

theorem minus_plus_is_left_nested_witness:
  "evaluateExpression 3 ''a-b+c''
     (with_variables [(''a'', Value_int 7), (''b'', Value_int 2), (''c'', Value_int 1)])
   = Ok (Value_int 6,
         with_variables [(''a'', Value_int 7), (''b'', Value_int 2), (''c'', Value_int 1)])"
  using minus_plus_is_left_nested
    [of "with_variables [(''a'', Value_int 7), (''b'', Value_int 2), (''c'', Value_int 1)]"
        "Value_int 7" "Value_int 2" "Value_int 1" 0]
  by (simp add: example_defs numeral_3_eq_3)

text \<open>The claim's value \<open>a - (b + c)\<close> is not what is computed: with all three equal to 1
  the result is 1, not -1.\<close>

theorem minus_plus_counterexample:
  "evaluateExpression 3 ''a-b+c''
     (with_variables [(''a'', Value_int 1), (''b'', Value_int 1), (''c'', Value_int 1)])
   \<noteq> Ok (Value_int (1 - (1 + 1)),
          with_variables [(''a'', Value_int 1), (''b'', Value_int 1), (''c'', Value_int 1)])"
  by (simp add: numeral_3_eq_3 string_defs literal_defs eval_defs eval_operands_def
      evaluateArithmetic_def example_defs)

subsection \<open>A leading minus sign\<close>

text \<open>
  C10. With \<open>x\<close> bound to an integer and no binding for the text \<open>-x\<close> itself, the
  expression \<open>-x\<close> evaluates to the absent value: no arithmetic split applies to an
  operator at position 0, and the lookup of \<open>-x\<close> misses.
\<close>

theorem leading_minus_is_absent:
  assumes "variables st ''x'' = Some vx" and "type vx = T_INT"
    and "variables st ''-x'' = None"
  shows "evaluateExpression (Suc n) ''-x'' st = Ok (Value_none, st)"
  using assms
  by (simp add: string_defs literal_defs eval_defs)

theorem leading_minus_is_absent_witness:
  "evaluateExpression 1 ''-x'' (with_variables [(''x'', Value_int 5)])
   = Ok (Value_none, with_variables [(''x'', Value_int 5)])"
  using leading_minus_is_absent [of "with_variables [(''x'', Value_int 5)]" "Value_int 5" 0]
  by (simp add: example_defs)

text \<open>A \<open>for\<close> head or a comprehension binds whatever text stands in the place of the
  loop variable, also \<open>-x\<close>; the expression \<open>-x\<close> then finds that binding.\<close>

theorem leading_minus_counterexample:
  "evaluateExpression 1 ''-x''
     (with_variables [(''x'', Value_int 5), (''-x'', Value_int 0)])
   = Ok (Value_int 0, with_variables [(''x'', Value_int 5), (''-x'', Value_int 0)])"
  by (simp add: string_defs literal_defs eval_defs example_defs)

subsection \<open>List comprehension over an integer\<close>

lemma lookup_i:
  "variables st ''i'' = Some v \<Longrightarrow> evaluateExpression (Suc m) ''i'' st = Ok (v, st)"
  by (simp add: string_defs literal_defs eval_defs)

text \<open>The loop with the output expression \<open>i\<close> and the loop variable \<open>i\<close> collects the
  items themselves and leaves the last one bound.\<close>

lemma comprehension_loop_i:
  "comprehension_loop (evaluateExpression (Suc m)) ''i'' ''i'' items acc st
   = Ok (acc @ items, if items = [] then st else set_variable ''i'' (last items) st)"
proof (induction items arbitrary: acc st)
  case Nil
  show ?case by simp
next
  case (Cons item items)
  show ?case by (simp add: lookup_i Cons.IH)
qed

lemma comprehension_parts_i_in_n:
  "comprehension_parts ''[i for int i in n]'' = Ok (''i'', ''i'', ''n'')"
  by (simp add: comprehension_parts_def string_defs)

text \<open>
  C4. With \<open>n\<close> bound to an integer, the comprehension \<open>[i for int i in n]\<close> evaluates
  to the list of the integers \<open>0, 1, ..., n-1\<close>, which is empty when \<open>n\<close> is 0 (and when
  it is negative); the state afterwards is the state before.
\<close>

theorem comprehension_over_int:
  assumes "variables st ''n'' = Some vn" and "type vn = T_INT"
  shows "evaluateExpression (Suc (Suc m)) ''[i for int i in n]'' st
         = Ok (list_value (map (\<lambda>k. Value_int (word_of_nat k)) [0 ..< nat (sint (intVal vn))]),
               st)"
proof -
  have iterable: "evaluateExpression (Suc m) ''n'' st = Ok (vn, st)"
    using assms by (simp add: string_defs literal_defs eval_defs)
  have dispatch: "evaluateExpression (Suc (Suc m)) ''[i for int i in n]'' st
      = evaluateListComprehension (evaluateExpression (Suc m)) ''[i for int i in n]'' st"
    by (simp add: string_defs literal_defs eval_defs)
  show ?thesis
    unfolding dispatch evaluateListComprehension_def
    using assms
    by (simp add: comprehension_parts_i_in_n iterable comprehension_loop_i iteration_items_def)
qed

theorem comprehension_over_int_witness:
  "evaluateExpression 2 ''[i for int i in n]'' (with_variables [(''n'', Value_int 3)])
   = Ok (list_value [Value_int 0, Value_int 1, Value_int 2],
         with_variables [(''n'', Value_int 3)])"
  using comprehension_over_int [of "with_variables [(''n'', Value_int 3)]" "Value_int 3" 0]
  by (simp add: example_defs numeral_2_eq_2 upt_rec)

subsection \<open>List comprehension and the binding of its loop variable\<close>

text \<open>
  C5. When a list comprehension has been evaluated, its loop identifier holds exactly the
  binding it had once the iterable expression was evaluated: bound to the same value, or
  unbound. That is its binding from before the comprehension whenever the evaluation of
  the iterable expression did not itself change it. This holds whatever the evaluator of
  the sub-expressions does.
\<close>

theorem comprehension_restores_binding:
  assumes "comprehension_parts expr = Ok (outputExpr, varName, iterableExpr)"
    and "ev iterableExpr st = Ok (iterable, st1)"
    and "evaluateListComprehension ev expr st = Ok (v, st2)"
  shows "variables st2 varName = variables st1 varName
         \<and> (if variables st1 varName = variables st varName
            then variables st2 varName = variables st varName else True)"
  using assms
  by (auto simp: evaluateListComprehension_def elim!: andThen.elims split: prod.splits)

theorem comprehension_restores_binding_witness:
  "comprehension_parts ''[i for int i in n]'' = Ok (''i'', ''i'', ''n'')
   \<and> evaluateExpression (Suc 0) ''n'' (with_variables [(''n'', Value_int 2), (''i'', Value_string ''kept'')])
     = Ok (Value_int 2, with_variables [(''n'', Value_int 2), (''i'', Value_string ''kept'')])
   \<and> evaluateListComprehension (evaluateExpression (Suc 0)) ''[i for int i in n]''
       (with_variables [(''n'', Value_int 2), (''i'', Value_string ''kept'')])
     = Ok (list_value [Value_int 0, Value_int 1],
           with_variables [(''n'', Value_int 2), (''i'', Value_string ''kept'')])
   \<and> variables (with_variables [(''n'', Value_int 2), (''i'', Value_string ''kept'')]) ''i''
     = Some (Value_string ''kept'')"
proof -
  let ?st = "with_variables [(''n'', Value_int 2), (''i'', Value_string ''kept'')]"
  have parts: "comprehension_parts ''[i for int i in n]'' = Ok (''i'', ''i'', ''n'')"
    by (rule comprehension_parts_i_in_n)
  have iterable: "evaluateExpression (Suc 0) ''n'' ?st = Ok (Value_int 2, ?st)"
    by (simp add: string_defs literal_defs eval_defs example_defs)
  have whole: "evaluateListComprehension (evaluateExpression (Suc 0)) ''[i for int i in n]'' ?st
      = Ok (list_value [Value_int 0, Value_int 1], ?st)"
    unfolding evaluateListComprehension_def
    by (simp add: parts iterable comprehension_loop_i iteration_items_def numeral_2_eq_2 upt_rec)
  have "variables ?st ''i'' = Some (Value_string ''kept'')"
    by (simp add: example_defs)
  with comprehension_restores_binding [OF parts iterable whole] parts iterable whole
  show ?thesis by simp
qed

text \<open>The iterable expression is evaluated before the binding is saved. Here it appends
  to the list bound to the loop identifier \<open>x\<close>, and the longer list is what \<open>x\<close> holds
  afterwards.\<close>

theorem comprehension_binding_counterexample:
  "evaluateExpression 3 ''[x for x in x.append(1[)]'' (with_variables [(''x'', list_value [])])
   = Ok (list_value [],
         set_variable ''x'' (list_value [Value_none]) (with_variables [(''x'', list_value [])]))
   \<and> variables (set_variable ''x'' (list_value [Value_none])
                  (with_variables [(''x'', list_value [])])) ''x''
     \<noteq> variables (with_variables [(''x'', list_value [])]) ''x''"
  by (simp add: numeral_3_eq_3 string_defs literal_defs eval_defs evaluateListComprehension_def
      comprehension_parts_def evaluateMemberAccess_def example_defs iteration_items_def
      list_value_def set_listVal_def set_type_def Value_none_def)

subsection \<open>Running a program with a for block\<close>

lemma to_string_int_digits:
  "to_string_int 0 = ''0''" "to_string_int 1 = ''1''" "to_string_int 2 = ''2''"
  by (simp_all add: to_string_int_def digits_of_nat.simps digit_char_def)

lemmas statement_defs =
  executeStatement_def varDeclPattern_def varDeclPattern2_def assignPattern_def
  memberAssignPattern_def match_name_assign_def match_space_name_def
  match_space_name_assign_def match_value_def isword_def isspace_def

lemma print_i:
  "variables st ''i'' = Some v \<Longrightarrow>
   executeStatement (evaluateExpression (Suc m)) ''print(i)'' st
   = Ok (st\<lparr>stdout := stdout st @ toString v\<rparr>)"
  by (simp add: statement_defs string_defs evaluateFunctionCall_def getline_all_def lookup_i)

lemmas block_defs =
  executeBlock_Suc executeBlock_body_def head_text_def iteration_items_def stoi_def
  after_sign_def nat_of_digits_def digit_val_def upt_rec

text \<open>With the brace on the head line, the collection of the body starts two lines
  after the head: the line \<open>print(i)\<close> is passed over and the body is empty.\<close>

lemma block_brace_on_head:
  "executeBlock (Suc (Suc (Suc n))) [''for (int i in 3) {'', ''print(i)'', ''}''] 0 st
   = Ok (3, set_variable ''i'' (Value_int 2) st)"
  by (simp add: block_defs string_defs literal_defs eval_defs isspace_def)

lemma block_brace_on_own_line:
  "executeBlock (Suc (Suc (Suc n))) [''for (int i in 3)'', ''{'', ''print(i)'', ''}''] 0 st
   = Ok (4, (set_variable ''i'' (Value_int 2) st)\<lparr>stdout := stdout st @ ''012''\<rparr>)"
  by (simp add: block_defs string_defs literal_defs eval_defs isspace_def print_i
      to_string_int_digits Value_int_def set_variable_def)

lemma load_brace_on_head:
  "files st ''program.hm'' = Some for_program_brace_on_head \<Longrightarrow>
   loadProgram ''program.hm'' st
   = Ok (st\<lparr>mainClass := ''Main'',
             classes := (classes st)(''Main'' \<mapsto> new_ClassDefinition ''Main'')\<rparr>)"
  by (simp add: loadProgram_def for_program_brace_on_head_def string_defs class_name_of_def)

lemma load_brace_on_own_line:
  "files st ''program.hm'' = Some for_program_brace_on_own_line \<Longrightarrow>
   loadProgram ''program.hm'' st
   = Ok (st\<lparr>mainClass := ''Main'',
             classes := (classes st)(''Main'' \<mapsto> new_ClassDefinition ''Main'')\<rparr>)"
  by (simp add: loadProgram_def for_program_brace_on_own_line_def string_defs class_name_of_def)

lemma body_brace_on_head:
  "find_main_body ''Main'' for_program_brace_on_head
   = [''for (int i in 3) {'', ''print(i)'', ''}'']"
  by (simp add: for_program_brace_on_head_def string_defs)

lemma body_brace_on_own_line:
  "find_main_body ''Main'' for_program_brace_on_own_line
   = [''for (int i in 3)'', ''{'', ''print(i)'', ''}'']"
  by (simp add: for_program_brace_on_own_line_def string_defs)

text \<open>
  C2. The program \<open>$Main\<close>, \<open>class Main {\<close>, \<open>for (int i in 3)\<close>, \<open>{\<close>, \<open>print(i)\<close>,
  \<open>}\<close>, \<open>}\<close>, whose \<open>for\<close> head is followed by a line that holds the opening brace,
  returns and writes exactly \<open>012\<close> to standard output: the body line is collected and
  executed once for each of 0, 1, 2. The same program with the brace at the end of the
  head line returns and writes nothing: the line after the head is not collected. Both
  hold for every standard input, seed, library and order of evaluation, with fuel 3 or
  more.
\<close>

theorem for_program_prints_012:
  "output_of (main (Suc (Suc (Suc n)))
                (new_Interpreter seed pw input [''program.hm'' \<mapsto> for_program_brace_on_own_line] rtl))
   = Some ''012''
   \<and> output_of (main (Suc (Suc (Suc n)))
                (new_Interpreter seed pw input [''program.hm'' \<mapsto> for_program_brace_on_head] rtl))
     = Some []"
  by (simp add: output_of_def main_def run_def load_brace_on_own_line body_brace_on_own_line
      block_brace_on_own_line load_brace_on_head body_brace_on_head block_brace_on_head
      new_Interpreter_def)

text \<open>The program of the claim, with the brace at the end of the head line, returns and
  writes nothing.\<close>

theorem for_program_counterexample:
  "output_of (main 3 (new_Interpreter (\<lambda>n. 0) (\<lambda>n. Finite False 1) []
                        [''program.hm'' \<mapsto> for_program_brace_on_head] False))
   = Some []"
  by (simp add: numeral_3_eq_3 output_of_def main_def run_def load_brace_on_head
      body_brace_on_head block_brace_on_head new_Interpreter_def)

subsection \<open>Conversion of a string to a number\<close>

lemma stoi_no_number: "no_number_at_start s \<Longrightarrow> stoi s = Raise InvalidArgument"
  by (auto simp: no_number_at_start_def stoi_def Let_def isdigit_def takeWhile_eq_Nil_iff
      split: if_splits)

lemma tolower_i: "tolower c = CHR ''i'' \<Longrightarrow> c = CHR ''i'' \<or> c = CHR ''I''"
  by (simp add: tolower_def split: if_splits)

lemma tolower_n: "tolower c = CHR ''n'' \<Longrightarrow> c = CHR ''n'' \<or> c = CHR ''N''"
  by (simp add: tolower_def split: if_splits)

lemma tolower_0: "tolower c = CHR ''0'' \<Longrightarrow> c = CHR ''0''"
  by (simp add: tolower_def split: if_splits)

lemma stod_no_number:
  assumes "no_number_at_start s"
  shows "stod s = Raise InvalidArgument"
proof -
  define r where "r = after_sign (dropWhile isspace s)"
  have r: "r = [] \<or> hd r \<notin> set ''0123456789.iInN''"
    using assms by (auto simp: no_number_at_start_def r_def split: if_splits)
  have inf: "map tolower (take 3 r) \<noteq> ''inf''"
    using r tolower_i [of "hd r"] by (cases r) auto
  have nan: "map tolower (take 3 r) \<noteq> ''nan''"
    using r tolower_n [of "hd r"] by (cases r) auto
  have hex: "map tolower (take 2 r) \<noteq> ''0x''"
    using r tolower_0 [of "hd r"] by (cases r) auto
  have dec: "mantissa_part isdigit r = ([], [], r)"
    using r by (cases r) (auto simp: mantissa_part_def isdigit_def)
  show ?thesis
    using inf nan hex dec by (simp add: stod_def Let_def r_def [symmetric])
qed

lemma call_int_of_string:
  assumes "variables st ''s'' = Some v" and "type v = STRING"
  shows "evaluateExpression (Suc (Suc n)) ''int(s)'' st
         = andThen (stoi (stringVal v)) (\<lambda>i. Ok (Value_int i, st))"
  using assms
  by (simp add: string_defs literal_defs eval_defs evaluateFunctionCall_def getline_all_def)

lemma call_float_of_string:
  assumes "variables st ''s'' = Some v" and "type v = STRING"
  shows "evaluateExpression (Suc (Suc n)) ''float(s)'' st
         = andThen (stod (stringVal v)) (\<lambda>d. Ok (Value_double d, st))"
  using assms
  by (simp add: string_defs literal_defs eval_defs evaluateFunctionCall_def getline_all_def)

text \<open>
  C3. With \<open>s\<close> bound to a string, the calls \<open>int(s)\<close> and \<open>float(s)\<close> return the
  number that \<open>std::stoi\<close> and \<open>std::stod\<close> read from the string, and raise what these
  raise. For a string without a number at its start both raise \<open>invalid_argument\<close>: no
  value is returned, the absent one neither.
\<close>

theorem conversion_raises_on_malformed_string:
  assumes "variables st ''s'' = Some v" and "type v = STRING"
  shows "evaluateExpression (Suc (Suc n)) ''int(s)'' st
           = andThen (stoi (stringVal v)) (\<lambda>i. Ok (Value_int i, st))
         \<and> evaluateExpression (Suc (Suc n)) ''float(s)'' st
           = andThen (stod (stringVal v)) (\<lambda>d. Ok (Value_double d, st))
         \<and> (if no_number_at_start (stringVal v)
            then evaluateExpression (Suc (Suc n)) ''int(s)'' st = Raise InvalidArgument
               \<and> evaluateExpression (Suc (Suc n)) ''float(s)'' st = Raise InvalidArgument
            else True)"
  using assms
  by (simp add: call_int_of_string call_float_of_string stoi_no_number stod_no_number)

theorem conversion_raises_on_malformed_string_witness:
  "no_number_at_start ''twelve''
   \<and> evaluateExpression (Suc (Suc 0)) ''int(s)''
       (with_variables [(''s'', Value_string ''twelve'')])
     = Raise InvalidArgument
   \<and> evaluateExpression (Suc (Suc 0)) ''float(s)''
       (with_variables [(''s'', Value_string ''twelve'')])
     = Raise InvalidArgument"
proof -
  let ?st = "with_variables [(''s'', Value_string ''twelve'')]"
  have malformed: "no_number_at_start ''twelve''"
    by (simp add: no_number_at_start_def after_sign_def isspace_def)
  have bound: "variables ?st ''s'' = Some (Value_string ''twelve'')"
    by (simp add: example_defs)
  have kind: "type (Value_string ''twelve'') = STRING"
    by simp
  have "if no_number_at_start (stringVal (Value_string ''twelve''))
        then evaluateExpression (Suc (Suc 0)) ''int(s)'' ?st = Raise InvalidArgument
           \<and> evaluateExpression (Suc (Suc 0)) ''float(s)'' ?st = Raise InvalidArgument
        else True"
    by (rule conjunct2 [OF conjunct2 [OF conversion_raises_on_malformed_string [OF bound kind]]])
  then have "evaluateExpression (Suc (Suc 0)) ''int(s)'' ?st = Raise InvalidArgument
           \<and> evaluateExpression (Suc (Suc 0)) ''float(s)'' ?st = Raise InvalidArgument"
    using malformed by (simp only: Value_string_fields if_True)
  with malformed show ?thesis
    by (rule conjI)
qed

text \<open>For the string \<open>abc\<close> the calls do not return the absent value: they raise.\<close>

theorem conversion_counterexample:
  "evaluateExpression (Suc (Suc 0)) ''int(s)'' (with_variables [(''s'', Value_string ''abc'')])
   = Raise InvalidArgument
   \<and> evaluateExpression (Suc (Suc 0)) ''float(s)''
       (with_variables [(''s'', Value_string ''abc'')])
     = Raise InvalidArgument"
proof -
  let ?st = "with_variables [(''s'', Value_string ''abc'')]"
  have malformed: "no_number_at_start ''abc''"
    by (simp add: no_number_at_start_def after_sign_def isspace_def)
  have bound: "variables ?st ''s'' = Some (Value_string ''abc'')"
    by (simp add: example_defs)
  show ?thesis
    by (simp add: call_int_of_string [OF bound] call_float_of_string [OF bound]
        stoi_no_number [OF malformed] stod_no_number [OF malformed])
qed

subsection \<open>Rendering a number and reading it back\<close>

lemma digit_char_isdigit: "d < 10 \<Longrightarrow> isdigit (digit_char d)"
proof -
  assume "d < 10"
  then have "d \<in> {0, 1, 2, 3, 4, 5, 6, 7, 8, 9}" by auto
  then show ?thesis
    by (auto simp: digit_char_def isdigit_def)
qed

lemma digit_val_digit_char: "d < 10 \<Longrightarrow> digit_val (digit_char d) = d"
proof -
  assume "d < 10"
  then have "d \<in> {0, 1, 2, 3, 4, 5, 6, 7, 8, 9}" by auto
  then show ?thesis
    by (auto simp: digit_char_def digit_val_def)
qed

lemma digits_of_nat_digits: "list_all isdigit (digits_of_nat n)"
proof (induction n rule: digits_of_nat.induct)
  case (1 n)
  show ?case
  proof (cases "n < 10")
    case True
    then show ?thesis by (simp add: digits_of_nat.simps [of n] digit_char_isdigit)
  next
    case False
    then show ?thesis using 1 by (simp add: digits_of_nat.simps [of n] digit_char_isdigit)
  qed
qed

lemma digits_of_nat_nonempty: "digits_of_nat n \<noteq> []"
  by (simp add: digits_of_nat.simps [of n])

lemma nat_of_digits_snoc: "nat_of_digits (ds @ [c]) = 10 * nat_of_digits ds + digit_val c"
  by (simp add: nat_of_digits_def)

lemma nat_of_digits_of_nat: "nat_of_digits (digits_of_nat n) = n"
proof (induction n rule: digits_of_nat.induct)
  case (1 n)
  show ?case
  proof (cases "n < 10")
    case True
    then show ?thesis by (simp add: digits_of_nat.simps [of n] nat_of_digits_def digit_val_digit_char)
  next
    case False
    then show ?thesis using 1 by (simp add: digits_of_nat.simps [of n] nat_of_digits_snoc digit_val_digit_char)
  qed
qed

lemma find_first_not_of_hd: "s \<noteq> [] \<Longrightarrow> hd s \<notin> set cs \<Longrightarrow> find_first_not_of s cs = 0"
  by (cases s) (simp_all add: find_first_not_of_def)

lemma find_last_not_of_aux_all:
  "s \<noteq> [] \<Longrightarrow> list_all (\<lambda>c. c \<notin> set cs) s \<Longrightarrow> i + length s < npos 
   \<Longrightarrow> find_last_not_of_aux cs s i = i + length s - 1"
proof (induction s arbitrary: i)
  case Nil
  then show ?case by simp
next
  case (Cons a s)
  show ?case
  proof (cases s)
    case Nil
    then show ?thesis using Cons.prems by simp
  next
    case (Cons b t)
    then have "find_last_not_of_aux cs s (Suc i) = Suc i + length s - 1"
      using Cons.prems Cons.IH [of "Suc i"] by simp
    then show ?thesis using Cons.prems Cons by (simp add: Let_def)
  qed
qed

lemma trim_no_whitespace:
  assumes "s \<noteq> []" "list_all (\<lambda>c. c \<notin> set whitespace) s" "length s < npos"
  shows "trim s = s"
proof -
  have "hd s \<notin> set whitespace" using assms by (cases s) auto
  then have f: "find_first_not_of s whitespace = 0" using assms by (simp add: find_first_not_of_hd)
  have l: "find_last_not_of s whitespace = length s - 1"
    using find_last_not_of_aux_all [of s whitespace 0] assms by (simp add: find_last_not_of_def)
  show ?thesis using assms by (simp add: trim_def f l npos_def)
qed


lemma length_digits_of_nat: "length (digits_of_nat n) \<le> Suc n"
proof (induction n rule: digits_of_nat.induct)
  case (1 n)
  show ?case
  proof (cases "n < 10")
    case True
    then show ?thesis by (simp add: digits_of_nat.simps [of n])
  next
    case False
    then have "length (digits_of_nat (n div 10)) \<le> Suc (n div 10)" using 1 by simp
    moreover have "Suc (n div 10) < n" using False by simp
    ultimately show ?thesis using False by (simp add: digits_of_nat.simps [of n])
  qed
qed

lemma isdigit_not_whitespace: "isdigit c \<Longrightarrow> c \<notin> set whitespace"
  by (auto simp: isdigit_def whitespace_def)

lemma isdigit_not_space: "isdigit c \<Longrightarrow> \<not> isspace c"
  by (auto simp: isdigit_def isspace_def)

lemma digits_hd: "isdigit (hd (digits_of_nat n))"
  using digits_of_nat_digits [of n] digits_of_nat_nonempty [of n]
  by (cases "digits_of_nat n") auto

lemma takeWhile_all: "list_all P xs \<Longrightarrow> takeWhile P xs = xs"
  by (induction xs) auto

lemma stoi_digits:
  assumes "n \<le> 2 ^ 31 - 1"
  shows "stoi (digits_of_nat n) = Ok (word_of_nat n)"
proof -
  let ?d = "digits_of_nat n"
  have hd: "isdigit (hd ?d)" by (rule digits_hd)
  have ne: "?d \<noteq> []" by (rule digits_of_nat_nonempty)
  have sp: "dropWhile isspace ?d = ?d"
    using hd ne isdigit_not_space [of "hd ?d"] by (cases ?d) auto
  have sg: "after_sign ?d = ?d"
    using hd ne by (cases ?d) (auto simp: after_sign_def isdigit_def)
  have ng: "hd ?d \<noteq> CHR ''-''"
    using hd by (auto simp: isdigit_def)
  have tk: "takeWhile isdigit ?d = ?d"
    by (simp add: takeWhile_all digits_of_nat_digits)
  have "int n \<le> 2 ^ 31 - 1" using assms by (simp add: of_nat_diff)
  then show ?thesis
    using ne ng by (simp add: stoi_def sp sg tk nat_of_digits_of_nat Let_def)
qed

lemma stoi_minus_digits:
  assumes "0 < n" "n \<le> 2 ^ 31"
  shows "stoi (CHR ''-'' # digits_of_nat n) = Ok (word_of_int (- int n))"
proof -
  let ?d = "digits_of_nat n"
  have hd: "isdigit (hd ?d)" by (rule digits_hd)
  have ne: "?d \<noteq> []" by (rule digits_of_nat_nonempty)
  have tk: "takeWhile isdigit ?d = ?d"
    by (simp add: takeWhile_all digits_of_nat_digits)
  have "int n \<le> 2 ^ 31" using assms by simp
  then show ?thesis
    using ne by (simp add: stoi_def isspace_def after_sign_def tk nat_of_digits_of_nat Let_def)
qed

lemma stoi_to_string_int: "stoi (to_string_int i) = Ok i"
proof (cases "sint i < 0")
  case True
  have lo: "- (2 ^ 31) \<le> sint i" using sint_ge [of i] by simp
  have "stoi (CHR ''-'' # digits_of_nat (nat (- sint i))) = Ok (word_of_int (- int (nat (- sint i))))"
    using True lo by (intro stoi_minus_digits) auto
  then show ?thesis using True by (simp add: to_string_int_def)
next
  case False
  have hi: "sint i \<le> 2 ^ 31 - 1" using sint_lt [of i] by simp
  have "stoi (digits_of_nat (nat (sint i))) = Ok (word_of_nat (nat (sint i)))"
    using False hi by (intro stoi_digits) (auto simp: nat_le_iff of_nat_diff)
  then show ?thesis using False by (simp add: to_string_int_def)
qed


lemma to_string_int_trim: "trim (to_string_int i) = to_string_int i"
proof (rule trim_no_whitespace)
  show "to_string_int i \<noteq> []"
    by (simp add: to_string_int_def digits_of_nat_nonempty)
  have "list_all (\<lambda>c. c \<notin> set whitespace) (digits_of_nat n)" for n
    using digits_of_nat_digits [of n] isdigit_not_whitespace by (simp add: list_all_iff)
  then show "list_all (\<lambda>c. c \<notin> set whitespace) (to_string_int i)"
    by (simp add: to_string_int_def whitespace_def)
  have "nat \<bar>sint i\<bar> \<le> 2 ^ 31" using sint_ge [of i] sint_lt [of i] by (simp add: nat_le_iff abs_le_iff)
  have "length (to_string_int i) \<le> Suc (Suc (nat \<bar>sint i\<bar>))"
  proof (cases "sint i < 0")
    case True
    then show ?thesis
      using length_digits_of_nat [of "nat (- sint i)"] by (simp add: to_string_int_def)
  next
    case False
    then show ?thesis
      using length_digits_of_nat [of "nat (sint i)"] by (simp add: to_string_int_def)
  qed
  with \<open>nat \<bar>sint i\<bar> \<le> 2 ^ 31\<close> show "length (to_string_int i) < npos"
    by (simp add: npos_def)
qed

lemma to_string_int_literal: "is_int_literal (to_string_int i)"
  using digits_hd [of "nat (sint i)"]
  by (auto simp: is_int_literal_def strip_minus_def to_string_int_def digits_of_nat_nonempty digits_of_nat_digits isdigit_def)

lemma to_string_int_hd: "hd (to_string_int i) = CHR ''-'' \<or> isdigit (hd (to_string_int i))"
  using digits_hd [of "nat (sint i)"] by (simp add: to_string_int_def)

lemma to_string_int_not_keyword:
  "hd (to_string_int i) \<noteq> CHR 0x22" "to_string_int i \<noteq> ''true''" "to_string_int i \<noteq> ''false''"
  using to_string_int_hd [of i] by (auto simp: isdigit_def)

text \<open>
  C6. For every integer value, the text that \<open>toString\<close> renders is read back by
  \<open>evaluateExpression\<close> as an integer literal whose value is the original, in every
  state and with any fuel but none.
\<close>

theorem toString_reparse_int:
  "evaluateExpression (Suc n) (toString (Value_int i)) st = Ok (Value_int i, st)"
  by (simp add: Value_int_def eval_defs to_string_int_trim to_string_int_not_keyword
      to_string_int_literal stoi_to_string_int)

theorem toString_reparse_int_witness:
  "toString (Value_int (- 42)) = ''-42''
   \<and> evaluateExpression (Suc 0) ''-42'' (with_variables []) = Ok (Value_int (- 42), with_variables [])"
proof -
  have rendered: "toString (Value_int (- 42)) = ''-42''"
    by (simp add: Value_int_def to_string_int_def digits_of_nat.simps [of 42]
        digits_of_nat.simps [of 4] digit_char_def)
  show ?thesis
    using toString_reparse_int [of 0 "- 42" "with_variables []"] rendered by simp
qed

lemma round_half_even_small:
  assumes "0 \<le> x" and "x < 1 / 2"
  shows "round_half_even x = 0"
proof -
  have "\<lfloor>x\<rfloor> = 0"
    using assms by (simp add: floor_eq_iff)
  then show ?thesis
    using assms by (simp add: round_half_even_def)
qed

lemma digits_of_nat_0: "digits_of_nat 0 = ''0''"
  by (simp add: digits_of_nat.simps [of 0] digit_char_def)

lemma toString_small_double: "toString (Value_double (Finite False (1 / 2 ^ 30))) = ''0.000000''"
proof -
  have "round_half_even (1 / 2 ^ 30 * 1000000) = 0"
    by (rule round_half_even_small) simp_all
  then show ?thesis
    by (simp add: Value_double_def to_string_double_def digits_of_nat_0 pad6_def)
qed

lemma reparse_zero:
  "evaluateExpression (Suc 0) ''0.000000'' st = Ok (Value_double (Finite False 0), st)"
  by (simp add: eval_defs string_defs literal_defs stod_def mantissa_part_def isspace_def
      after_sign_def tolower_def strtod_finish_def nat_of_digits_def digit_val_def
      exponent_part_def pow10_def)

text \<open>The floating value \<open>2^-30\<close> is rendered as \<open>0.000000\<close>, which is read back as
  zero.\<close>

theorem toString_reparse_double_counterexample:
  "evaluateExpression (Suc 0) (toString (Value_double (Finite False (1 / 2 ^ 30)))) (with_variables [])
   = Ok (Value_double (Finite False 0), with_variables [])
   \<and> Value_double (Finite False 0) \<noteq> Value_double (Finite False (1 / 2 ^ 30))"
proof -
  have "Value_double (Finite False 0) \<noteq> Value_double (Finite False (1 / 2 ^ 30))"
    by (simp add: Value_double_def)
  then show ?thesis
    by (simp only: toString_small_double reparse_zero simp_thms)
qed

subsection \<open>Indexing and slicing a variable\<close>

lemma sint_of_nat_small: "L < 2 ^ 31 \<Longrightarrow> sint (word_of_nat L :: 32 word) = int L"
  by (simp add: signed_of_nat signed_take_bit_int_eq_self)

lemma int_of_size_t_small: "L < 2 ^ 31 \<Longrightarrow> sint (int_of_size_t L) = int L"
  by (simp add: int_of_size_t_def sint_of_nat_small)

lemma sint_add_negative:
  assumes "L < 2 ^ 31" and "sint (w :: 32 word) < 0"
  shows "sint (int_of_size_t L + w) = sint w + int L"
proof -
  have lo: "- (2 ^ 31) \<le> sint w" using sint_ge [of w] by simp
  have "sint (int_of_size_t L + w) = signed_take_bit 31 (sint (int_of_size_t L) + sint w)"
    by (simp add: sint_word_ariths)
  also have "\<dots> = signed_take_bit 31 (int L + sint w)"
    using assms by (simp add: int_of_size_t_small)
  also have "\<dots> = int L + sint w"
    using assms lo by (intro signed_take_bit_int_eq_self) auto
  finally show ?thesis by simp
qed

lemma find_aux_absent: "c \<notin> set s \<Longrightarrow> find_aux [c] s i = npos"
  by (induction s arbitrary: i) auto

lemma find_aux_first: "c \<notin> set xs \<Longrightarrow> find_aux [c] (xs @ c # ys) i = i + length xs"
  by (induction xs arbitrary: i) auto

lemma rfind_aux_last:
  "i + length xs < npos \<Longrightarrow> rfind_aux [c] (xs @ [c]) i = i + length xs"
proof (induction xs arbitrary: i)
  case Nil
  then show ?case by (simp add: Let_def)
next
  case (Cons a xs)
  then have "rfind_aux [c] (xs @ [c]) (Suc i) = Suc i + length xs" by simp
  then show ?case using Cons.prems by (simp add: Let_def)
qed

lemma array_access_parts_index:
  assumes "CHR ''['' \<notin> set vname" and "length vname + length e < 2 ^ 32"
  shows "array_access_parts (vname @ CHR ''['' # e @ '']'') = Ok (trim vname, e)"
proof -
  have f: "string_find (vname @ ''['' @ e @ '']'') ''['' = length vname"
    using assms find_aux_first [of "CHR ''[''" vname "e @ '']''" 0] by (simp add: string_find_def)
  have "rfind_aux '']'' ((vname @ ''['' @ e) @ '']'') 0 = 0 + length (vname @ ''['' @ e)"
    using assms by (intro rfind_aux_last) (simp add: npos_def)
  then have r: "string_rfind (vname @ ''['' @ e @ '']'') '']'' = length vname + length e + 1"
    by (simp add: string_rfind_def)
  have s1: "sz (int (length vname) + 1) = length vname + 1"
    using assms by (simp add: sz_def nat_add_distrib)
  have s2: "sz (int (length vname + length e + 1) - int (length vname) - 1) = length e"
    using assms by (simp add: sz_def)
  show ?thesis
    using f r s1 s2 by (simp add: array_access_parts_def substr_def)
qed

lemma no_colon: "CHR '':'' \<notin> set e \<Longrightarrow> \<not> contains e '':''"
  by (simp add: contains_def string_find_def find_aux_absent)

lemma reverse_slice:
  assumes "variables st ''s'' = Some v" and "type v = STRING \<or> type v = LIST"
  shows "evaluateExpression (Suc n) ''s[::-1]'' st
         = Ok (if type v = STRING then Value_string (rev (stringVal v))
               else list_value (rev (listVal v)), st)"
  using assms
  by (auto simp add: eval_defs string_defs literal_defs evaluateArrayAccess_def
      array_access_parts_def)

text \<open>
  C7. With \<open>s\<close> bound to a string, the expression \<open>s[::-1][::-1]\<close> evaluates to a
  string value with the text of \<open>s\<close>; with \<open>s\<close> bound to a list, to a list value with
  the elements of \<open>s\<close>. The state is unchanged. The container has fewer than 2^31
  elements, so that its size is an \<open>int\<close>.
\<close>

theorem double_reverse_slice:
  assumes "variables st ''s'' = Some v"
    and "type v = STRING \<and> length (stringVal v) < 2 ^ 31
         \<or> type v = LIST \<and> length (listVal v) < 2 ^ 31"
  shows "evaluateExpression (Suc n) ''s[::-1][::-1]'' st
         = Ok (if type v = STRING then Value_string (stringVal v) else list_value (listVal v), st)"
  using assms
  by (auto simp add: eval_defs string_defs literal_defs evaluateArrayAccess_def
      array_access_parts_def slice_access_def slice_list_def size_t_of_int_def
      int_of_size_t_small)

theorem double_reverse_slice_witness:
  "evaluateExpression (Suc 0) ''s[::-1][::-1]'' (with_variables [(''s'', Value_string ''abc'')])
   = Ok (Value_string ''abc'', with_variables [(''s'', Value_string ''abc'')])
   \<and> evaluateExpression (Suc 0) ''s[::-1][::-1]''
       (with_variables [(''s'', list_value [Value_int 1, Value_int 2])])
     = Ok (list_value [Value_int 1, Value_int 2],
           with_variables [(''s'', list_value [Value_int 1, Value_int 2])])"
  using double_reverse_slice [of "with_variables [(''s'', Value_string ''abc'')]"
      "Value_string ''abc''" 0]
    double_reverse_slice [of "with_variables [(''s'', list_value [Value_int 1, Value_int 2])]"
      "list_value [Value_int 1, Value_int 2]" 0]
  by (simp add: example_defs)

text \<open>
  C8. An access \<open>var[e]\<close>, where the name holds no \<open>[\<close> and nothing to trim, and the
  index expression \<open>e\<close> holds no \<open>:\<close> and evaluates to an integer \<open>i\<close>: with the name
  bound to a list or a string of length \<open>L\<close> below 2^31, the effective index is \<open>i + L\<close>
  when \<open>i\<close> is negative and \<open>i\<close> otherwise; inside \<open>[0, L)\<close> the result is the element
  there (for a string, the string of the one character there), outside it is the absent
  value. The state is the one that the evaluation of \<open>e\<close> left. This holds whatever the
  evaluator of the index expression is.
\<close>

theorem index_access_effective_index:
  assumes "CHR ''['' \<notin> set vname" and "trim vname = vname" and "CHR '':'' \<notin> set e"
    and "length vname + length e < 2 ^ 32"
    and "ev e st = Ok (index, st1)" and "type index = T_INT"
    and "variables st1 vname = Some var" and "type var = LIST \<or> type var = STRING"
    and "length (listVal var) < 2 ^ 31" and "length (stringVal var) < 2 ^ 31"
  shows "evaluateArrayAccess ev (vname @ ''['' @ e @ '']'') st
         = Ok (let L = int (if type var = LIST then length (listVal var)
                            else length (stringVal var));
                   i = sint (intVal index);
                   k = (if i < 0 then i + L else i)
               in if 0 \<le> k \<and> k < L
                  then (if type var = LIST then listVal var ! nat k
                        else Value_string [stringVal var ! nat k])
                  else Value_none, st1)"
  using assms
  by (auto simp add: evaluateArrayAccess_def array_access_parts_index no_colon index_access_def
      int_of_size_t_small sint_add_negative Let_def)

theorem index_access_effective_index_witness:
  "evaluateExpression (Suc 0) ''-1''
     (with_variables [(''xs'', list_value [Value_int 10, Value_int 20, Value_int 30])])
   = Ok (Value_int (- 1),
         with_variables [(''xs'', list_value [Value_int 10, Value_int 20, Value_int 30])])
   \<and> evaluateArrayAccess (evaluateExpression (Suc 0)) ''xs[-1]''
       (with_variables [(''xs'', list_value [Value_int 10, Value_int 20, Value_int 30])])
     = Ok (Value_int 30,
           with_variables [(''xs'', list_value [Value_int 10, Value_int 20, Value_int 30])])"
proof -
  let ?st = "with_variables [(''xs'', list_value [Value_int 10, Value_int 20, Value_int 30])]"
  have index: "evaluateExpression (Suc 0) ''-1'' ?st = Ok (Value_int (- 1), ?st)"
    by (simp add: eval_defs string_defs literal_defs stoi_def isspace_def after_sign_def
        nat_of_digits_def digit_val_def)
  have bound: "variables ?st ''xs''
      = Some (list_value [Value_int 10, Value_int 20, Value_int 30])"
    by (simp add: example_defs)
  have "evaluateArrayAccess (evaluateExpression (Suc 0)) (''xs'' @ ''['' @ ''-1'' @ '']'') ?st
      = Ok (Value_int 30, ?st)"
    using index_access_effective_index [of "''xs''" "''-1''" "evaluateExpression (Suc 0)" ?st
        "Value_int (- 1)" ?st "list_value [Value_int 10, Value_int 20, Value_int 30]",
        OF _ _ _ _ index _ bound]
    by (simp add: string_defs)
  with index show ?thesis by simp
qed

subsection \<open>Member assignment to something that is not an instance\<close>

lemma isword_not_space: "isword c \<Longrightarrow> \<not> isspace c"
  by (auto simp: isword_def isspace_def)

lemma after_token_not_space:
  assumes w: "dropWhile isword stmt = CHR ''.'' # rest"
    and t: "prefix t stmt" and dot: "CHR ''.'' \<notin> set t"
  shows "drop (length t) stmt \<noteq> [] \<and> \<not> isspace (hd (drop (length t) stmt))"
proof -
  let ?w = "takeWhile isword stmt"
  have stmt: "stmt = ?w @ CHR ''.'' # rest"
    using w takeWhile_dropWhile_id [of isword stmt] by simp
  have words: "\<forall>c \<in> set ?w. isword c"
    by (auto dest: set_takeWhileD)
  have le: "length t \<le> length ?w"
  proof (rule ccontr)
    assume "\<not> length t \<le> length ?w"
    then have lt: "length ?w < length t" by simp
    obtain u where u: "stmt = t @ u" using t by (auto simp: prefix_def)
    have "stmt ! length ?w = CHR ''.''"
      by (subst stmt) (simp add: nth_append)
    moreover have "stmt ! length ?w = t ! length ?w"
      using lt by (subst u) (simp add: nth_append)
    ultimately have "CHR ''.'' \<in> set t" using lt by (metis nth_mem)
    with dot show False by simp
  qed
  show ?thesis
  proof (cases "length t = length ?w")
    case True
    have "drop (length t) stmt = CHR ''.'' # rest"
      by (subst stmt) (simp add: True)
    then show ?thesis by (simp add: isspace_def)
  next
    case False
    with le have lt: "length t < length ?w" by simp
    have "drop (length t) stmt = drop (length t) ?w @ CHR ''.'' # rest"
      using lt by (subst stmt) simp
    moreover have "drop (length t) ?w \<noteq> []" using lt by simp
    moreover have "hd (drop (length t) ?w) \<in> set ?w"
      using lt by (simp add: hd_drop_conv_nth)
    ultimately show ?thesis using words isword_not_space by auto
  qed
qed

lemma match_alternatives_none:
  assumes "\<And>t. t \<in> set ts \<Longrightarrow> prefix t s \<Longrightarrow> rest (drop (length t) s) = None"
  shows "match_alternatives ts rest s = None"
  using assms by (induction ts) auto

text \<open>
  C9. A statement that matches the member assignment \<open>obj.field = expr\<close>, where \<open>obj\<close>
  is unbound or bound to a value that is not a class instance, returns with the state
  unchanged: the environment, the output and the input stay as they are. The result is
  the same for every evaluator of expressions, also one that raises, prints or does not
  return: \<open>expr\<close> is not evaluated.
\<close>

theorem member_assignment_without_instance:
  assumes "memberAssignPattern (trim (removeComments line)) = Some (obj, field, e)"
    and "case variables st obj of None \<Rightarrow> True | Some v \<Rightarrow> type v \<noteq> CLASS_INSTANCE"
  shows "executeStatement ev line st = Ok st"
proof -
  let ?stmt = "trim (removeComments line)"
  from assms(1) obtain rest
    where w: "takeWhile isword ?stmt \<noteq> []" "dropWhile isword ?stmt = CHR ''.'' # rest"
    by (cases "dropWhile isword ?stmt") (auto simp: memberAssignPattern_def split: if_splits)
  have ne: "?stmt \<noteq> []"
    using w by auto
  have sp: "match_space_name_assign (drop (length t) ?stmt) = None"
           "match_space_name (drop (length t) ?stmt) = None"
    if "prefix t ?stmt" "CHR ''.'' \<notin> set t" for t
    using after_token_not_space [OF w(2) that]
    by (simp_all add: match_space_name_assign_def match_space_name_def)
  have p1: "varDeclPattern ?stmt = None"
    unfolding varDeclPattern_def
    by (rule match_alternatives_none) (auto intro: sp)
  have p2: "varDeclPattern2 ?stmt = None"
    unfolding varDeclPattern2_def
    by (rule match_alternatives_none) (auto intro: sp)
  have p3: "assignPattern ?stmt = None"
    using w by (simp add: assignPattern_def match_name_assign_def isspace_def)
  show ?thesis
    using assms(2) by (simp add: executeStatement_def ne p1 p2 p3 assms(1) split: option.splits)
qed

theorem member_assignment_without_instance_witness:
  "memberAssignPattern (trim (removeComments ''p.x = print(1)'')) = Some (''p'', ''x'', ''print(1)'')
   \<and> executeStatement (\<lambda>expr st. Raise UndefinedBehaviour) ''p.x = print(1)''
       (with_variables [(''p'', Value_int 3)])
     = Ok (with_variables [(''p'', Value_int 3)])
   \<and> executeStatement (evaluateExpression (Suc (Suc 0))) ''p.x = print(1)'' (with_variables [])
     = Ok (with_variables [])"
proof -
  have matched: "memberAssignPattern (trim (removeComments ''p.x = print(1)''))
      = Some (''p'', ''x'', ''print(1)'')"
    by (simp add: memberAssignPattern_def match_name_assign_def match_value_def string_defs
        isword_def isspace_def not_line_terminator_def)
  have bound: "case variables (with_variables [(''p'', Value_int 3)]) ''p'' of
      None \<Rightarrow> True | Some v \<Rightarrow> type v \<noteq> CLASS_INSTANCE"
    by (simp add: example_defs)
  have unbound: "case variables (with_variables []) ''p'' of
      None \<Rightarrow> True | Some v \<Rightarrow> type v \<noteq> CLASS_INSTANCE"
    by (simp add: example_defs)
  show ?thesis
    using matched member_assignment_without_instance [OF matched bound]
      member_assignment_without_instance [OF matched unbound]
    by simp
qed

end
